theory Spec2Isabelle
  imports Complex_Main "HOL-Library.Log_Nat" "HOL-Library.Multiset" "HOL-Library.Word"
begin

section \<open>JavaScript numbers\<close>

text \<open>
  A JavaScript Number is an IEEE-754 binary64 value. Every finite one is a rational, so a
  number is modelled as a rational or one of the three special values. The two zeros are
  identified: the evaluator never divides, and \<open>-0\<close> prints and serialises as \<open>0\<close>.
\<close>

datatype number = Fin rat | PInf | NInf | NaN

text \<open>The relational operator \<open><=\<close>: false as soon as one operand is NaN.\<close>

fun num_le :: "number \<Rightarrow> number \<Rightarrow> bool" where
  "num_le NaN _ = False"
| "num_le _ NaN = False"
| "num_le NInf _ = True"
| "num_le _ PInf = True"
| "num_le (Fin x) (Fin y) = (x \<le> y)"
| "num_le _ _ = False"

text \<open>ToBoolean on a number: zero and NaN are falsy.\<close>

fun truthy :: "number \<Rightarrow> bool" where
  "truthy (Fin x) = (x \<noteq> 0)"
| "truthy NaN = False"
| "truthy _ = True"

subsection \<open>Rounding to the nearest double\<close>

text \<open>
  \<open>+\<close> and \<open>*\<close> on Numbers, numeric literals and the conversion of a decimal string all
  return the double nearest to the exact result, ties to the even significand, with
  gradual underflow (spacing \<open>2^-1074\<close> at the bottom) and overflow to an infinity.
\<close>

definition two_pow :: "int \<Rightarrow> rat" where
  "two_pow e = (if 0 \<le> e then 2 ^ nat e else 1 / 2 ^ nat (- e))"

text \<open>The integer \<open>e\<close> with \<open>2^e \<le> x < 2^(e+1)\<close>, for positive \<open>x\<close>.\<close>

definition ilog2 :: "rat \<Rightarrow> int" where
  "ilog2 x = (if 1 \<le> x then bitlen \<lfloor>x\<rfloor> - 1
              else let b = bitlen \<lfloor>1 / x\<rfloor> - 1
                   in if x = two_pow (- b) then - b else - b - 1)"

definition round_half_even :: "rat \<Rightarrow> int" where
  "round_half_even x =
     (let f = \<lfloor>x\<rfloor>; d = x - of_int f
      in if d < 1 / 2 then f else if 1 / 2 < d then f + 1 else if even f then f else f + 1)"

definition rnd :: "rat \<Rightarrow> number" where
  "rnd x =
     (if x = 0 then Fin 0
      else let a = \<bar>x\<bar>;
               e = max (ilog2 a - 52) (- 1074);
               r = of_int (round_half_even (a / two_pow e)) * two_pow e
           in if 2 ^ 1024 \<le> r then (if 0 < x then PInf else NInf)
              else Fin (if 0 < x then r else - r))"

text \<open>The length of a binary numeral, to evaluate \<open>bitlen\<close> on literals.\<close>

primrec num_len :: "num \<Rightarrow> nat" where
  "num_len Num.One = 1"
| "num_len (Num.Bit0 n) = Suc (num_len n)"
| "num_len (Num.Bit1 n) = Suc (num_len n)"

subsection \<open>Arithmetic\<close>

fun num_sgn :: "number \<Rightarrow> int" where
  "num_sgn (Fin x) = (if x = 0 then 0 else if 0 < x then 1 else - 1)"
| "num_sgn PInf = 1"
| "num_sgn NInf = - 1"
| "num_sgn NaN = 0"

fun num_neg :: "number \<Rightarrow> number" where
  "num_neg (Fin x) = Fin (- x)"
| "num_neg PInf = NInf"
| "num_neg NInf = PInf"
| "num_neg NaN = NaN"

fun num_add :: "number \<Rightarrow> number \<Rightarrow> number" where
  "num_add NaN _ = NaN"
| "num_add _ NaN = NaN"
| "num_add (Fin x) (Fin y) = rnd (x + y)"
| "num_add PInf NInf = NaN"
| "num_add NInf PInf = NaN"
| "num_add PInf _ = PInf"
| "num_add _ PInf = PInf"
| "num_add NInf _ = NInf"
| "num_add _ NInf = NInf"

fun num_mul :: "number \<Rightarrow> number \<Rightarrow> number" where
  "num_mul NaN _ = NaN"
| "num_mul _ NaN = NaN"
| "num_mul (Fin x) (Fin y) = rnd (x * y)"
| "num_mul a b =
     (let s = num_sgn a * num_sgn b in if s = 0 then NaN else if 0 < s then PInf else NInf)"

text \<open>\<open>Math.min\<close> and \<open>Math.max\<close> of two arguments: NaN if either is NaN.\<close>

definition num_min :: "number \<Rightarrow> number \<Rightarrow> number" where
  "num_min a b = (if a = NaN \<or> b = NaN then NaN else if num_le a b then a else b)"

definition num_max :: "number \<Rightarrow> number \<Rightarrow> number" where
  "num_max a b = (if a = NaN \<or> b = NaN then NaN else if num_le a b then b else a)"

text \<open>
  \<open>+x.toFixed(1)\<close>: \<open>toFixed\<close> prints a non-finite value by name and a value of magnitude
  \<open>10^21\<close> or more in its shortest round-trip form, so unary plus gives the value back.
  Below that it takes the integer \<open>n\<close> for which \<open>n / 10\<close> is closest to the magnitude,
  the larger one on a tie, prints \<open>n\<close> with one decimal behind the sign, and unary plus
  reads the decimal string as the nearest double.
\<close>

definition toFixed1 :: "number \<Rightarrow> number" where
  "toFixed1 v =
     (case v of
        Fin x \<Rightarrow>
          if 10 ^ 21 \<le> \<bar>x\<bar> then Fin x
          else let n = \<lfloor>\<bar>x\<bar> * 10 + 1 / 2\<rfloor>
               in if x < 0 then num_neg (rnd (of_int n / 10)) else rnd (of_int n / 10)
      | _ \<Rightarrow> v)"

section \<open>Data model\<close>

text \<open>
  The types of \<open>afwerx_sbir_sttr_evaluator_web_app_configurable.jsx\<close>. Fields that are
  only displayed (labels, descriptions, URLs, dates) are left out; every field that the
  evaluators read is kept, together with \<open>extractorKey\<close> and \<open>limit\<close>, which the schema
  carries although no evaluator reads them. The fields \<open>id\<close>, \<open>weight\<close>, \<open>title\<close>,
  \<open>start\<close> and \<open>end\<close> carry a prefix that tells their types apart.
\<close>

datatype limit_kind = KNumber | KMonths | KPages

record Limit =
  kind :: limit_kind
  limit_value :: number

record MandatoryCriterion =
  mc_id :: string
  extractorKey :: "string option"
  limit :: "Limit option"
  required :: bool

record RubricCriterion =
  rc_id :: string
  rc_weight :: number

record Category =
  cat_id :: string
  cat_weight :: number
  criteria :: "RubricCriterion list"

record PagePolicy =
  techVolumeMaxPages :: "number option"
  excludes :: "string list option"

record SolicitationConfig =
  mandatory :: "MandatoryCriterion list"
  additional :: "MandatoryCriterion list option"
  categories :: "Category list"
  pagePolicy :: "PagePolicy option"
  costCapUSD :: "number option"
  maxPoPMonths :: "number option"

record ProposalMetadata =
  title :: string
  company :: string
  topicNumber :: string
  cmSigned :: bool
  tvPages :: number
  popMonths :: number
  costTotal :: number
  rcfPresent :: bool
  fwaPresent :: bool
  vol7Present :: bool
  powOk :: bool

datatype Phase = Phase_I | Phase_II | D2P2

datatype Rating = Excellent | Good | Acceptable | Marginal | Poor

record Milestone =
  ms_id :: string
  ms_title :: string
  description :: string
  rdCentric :: bool
  measurable :: bool
  ms_start :: string
  ms_end :: string

section \<open>Plain objects\<close>

text \<open>
  The rating set and the result map of the mandatory gate are plain objects, created by
  \<open>{}\<close> and by \<open>{...r, [id]: val}\<close>. The own properties of such an object form a finite
  map from strings to values, and that map is what \<open>Object.values\<close> and the exported
  snapshot show. Reading a key that is not an own property finds the member of that name
  on \<open>Object.prototype\<close> when there is one: a function or, for \<open>__proto__\<close>, the
  prototype itself. All of them are truthy, none is a rating label and none is a boolean.
  Assigning to a key creates or replaces an own property, except for \<open>__proto__\<close>: that
  member is an accessor, and its setter ignores a value that is neither an object nor
  \<open>null\<close>. An object literal with a computed key, as in \<open>setRating\<close>, defines an own
  property whatever the key is.
\<close>

definition Object_prototype_keys :: "string list" where
  "Object_prototype_keys =
     [''constructor'', ''hasOwnProperty'', ''isPrototypeOf'', ''propertyIsEnumerable'',
      ''toLocaleString'', ''toString'', ''valueOf'', ''__proto__'', ''__defineGetter__'',
      ''__defineSetter__'', ''__lookupGetter__'', ''__lookupSetter__'']"

section \<open>Mandatory gate evaluator\<close>

text \<open>
  \<open>config.costCapUSD\<close> used as a condition: defined and truthy. The same for
  \<open>config.maxPoPMonths\<close> and \<open>config.pagePolicy?.techVolumeMaxPages\<close>.
\<close>

fun truthy_opt :: "number option \<Rightarrow> bool" where
  "truthy_opt None = False"
| "truthy_opt (Some n) = truthy n"

definition techVolumeMaxPages_of :: "SolicitationConfig \<Rightarrow> number option" where
  "techVolumeMaxPages_of cfg =
     (case pagePolicy cfg of None \<Rightarrow> None | Some pp \<Rightarrow> techVolumeMaxPages pp)"

text \<open>
  The body of the loop of \<open>mandatoryResults\<close> for one criterion: \<open>ok\<close> starts true and
  the five \<open>if\<close> statements run in the order of the source. The fields of
  \<open>proposalMeta\<close> are numbers by construction, so the \<open>typeof ... === "number"\<close> tests
  are always true.
\<close>

definition criterion_ok :: "SolicitationConfig \<Rightarrow> ProposalMetadata \<Rightarrow> MandatoryCriterion \<Rightarrow> bool" where
  "criterion_ok cfg pm m =
     (let ok = True;
          ok = (if mc_id m = ''costCap'' \<and> truthy_opt (costCapUSD cfg)
                then num_le (costTotal pm) (the (costCapUSD cfg)) else ok);
          ok = (if mc_id m = ''popCap'' \<and> truthy_opt (maxPoPMonths cfg)
                then num_le (popMonths pm) (the (maxPoPMonths cfg)) else ok);
          ok = (if mc_id m = ''pages'' \<and> truthy_opt (techVolumeMaxPages_of cfg)
                then num_le (tvPages pm) (the (techVolumeMaxPages_of cfg)) else ok);
          ok = (if mc_id m = ''cmSigned'' then cmSigned pm else ok);
          ok = (if mc_id m = ''rcf'' then rcfPresent pm else ok)
      in ok)"

text \<open>
  The loop itself: \<open>map[m.id] = !!ok\<close> for each criterion in list order, on the own
  properties of \<open>map\<close>. The assignment stores nothing when the id is \<open>__proto__\<close>.
\<close>

fun mandatory_loop ::
  "SolicitationConfig \<Rightarrow> ProposalMetadata \<Rightarrow> MandatoryCriterion list \<Rightarrow>
   (string \<rightharpoonup> bool) \<Rightarrow> (string \<rightharpoonup> bool)" where
  "mandatory_loop cfg pm [] mp = mp"
| "mandatory_loop cfg pm (m # ms) mp =
     mandatory_loop cfg pm ms
       (if mc_id m = ''__proto__'' then mp else mp(mc_id m \<mapsto> criterion_ok cfg pm m))"

text \<open>The own properties of the result map.\<close>

definition mandatoryResults :: "SolicitationConfig \<Rightarrow> ProposalMetadata \<Rightarrow> (string \<rightharpoonup> bool)" where
  "mandatoryResults cfg pm = mandatory_loop cfg pm (mandatory cfg) Map.empty"

text \<open>
  \<open>config.mandatory.some((m) => m.required && mandatoryResults[m.id] === false)\<close>. The
  read is strictly equal to \<open>false\<close> only when it finds an own property holding \<open>false\<close>:
  an inherited member is a function or an object.
\<close>

definition disqualified :: "SolicitationConfig \<Rightarrow> ProposalMetadata \<Rightarrow> bool" where
  "disqualified cfg pm =
     list_ex (\<lambda>m. required m \<and> mandatoryResults cfg pm (mc_id m) = Some False) (mandatory cfg)"

section \<open>Milestone quality flag\<close>

text \<open>The text of the badge rendered for one milestone.\<close>

definition milestone_badge :: "Milestone \<Rightarrow> string" where
  "milestone_badge m = (if rdCentric m \<and> measurable m then ''Strong'' else ''Needs Work'')"

section \<open>Loading a configuration\<close>

text \<open>
  The state of the \<open>App\<close> component that \<open>handleLoadConfig\<close> can see, with the alerts
  shown to the user as a log. \<open>JSON.parse\<close> is the platform's parser and the cast
  \<open>as SolicitationConfig\<close> is unchecked, so the parser is a parameter: \<open>None\<close> is the
  SyntaxError it throws, \<open>Some c\<close> the value that becomes the configuration.
\<close>

record 'c app_state =
  phase :: Phase
  configText :: string
  ousdreText :: string
  config :: 'c
  proposalMeta :: ProposalMetadata
  ratings :: "string \<rightharpoonup> Rating"
  milestones :: "Milestone list"
  alerts :: "string list"

definition handleLoadConfig :: "(string \<Rightarrow> 'c option) \<Rightarrow> 'c app_state \<Rightarrow> 'c app_state" where
  "handleLoadConfig parse s =
     (case parse (configText s) of
        Some parsed \<Rightarrow> s\<lparr>config := parsed\<rparr>
      | None \<Rightarrow> s\<lparr>alerts := alerts s @ [''Invalid solicitation JSON'']\<rparr>)"

section \<open>Weighted score aggregator\<close>

definition clamp01 :: "number \<Rightarrow> number" where
  "clamp01 n = num_max (Fin 0) (num_min (Fin 1) n)"

text \<open>The literals \<open>0.8\<close>, \<open>0.6\<close>, \<open>0.4\<close> and \<open>0.2\<close> denote the nearest doubles.\<close>

fun ratingToScore :: "Rating \<Rightarrow> number" where
  "ratingToScore Excellent = Fin 1"
| "ratingToScore Good = rnd (8 / 10)"
| "ratingToScore Acceptable = rnd (6 / 10)"
| "ratingToScore Marginal = rnd (4 / 10)"
| "ratingToScore Poor = rnd (2 / 10)"

text \<open>
  \<open>ratings[c.id] || "Acceptable"\<close>, where \<open>rs\<close> holds the own properties of \<open>ratings\<close>.
  Every rating label is a non-empty string, so an own property is returned as it is. For
  an id that is not an own property the read finds the inherited member of that name, if
  \<open>Object.prototype\<close> has one, and that truthy value is returned; only otherwise is the
  read \<open>undefined\<close> and the default taken.
\<close>

datatype rating_value = Label Rating | Inherited

definition rating_of :: "(string \<rightharpoonup> Rating) \<Rightarrow> string \<Rightarrow> rating_value" where
  "rating_of rs k =
     (case rs k of
        Some r \<Rightarrow> Label r
      | None \<Rightarrow> if k \<in> set Object_prototype_keys then Inherited else Label Acceptable)"

text \<open>
  \<open>ratingToScore(r)\<close> as the left operand of \<open>*\<close>. No case of the \<open>switch\<close> matches an
  inherited member, the function returns \<open>undefined\<close>, and the multiplication converts
  \<open>undefined\<close> to NaN.
\<close>

fun ratingToScore_operand :: "rating_value \<Rightarrow> number" where
  "ratingToScore_operand (Label r) = ratingToScore r"
| "ratingToScore_operand Inherited = NaN"

text \<open>The inner loop, from the value of \<open>catScore\<close> before it to the value after it.\<close>

fun criteria_loop :: "(string \<rightharpoonup> Rating) \<Rightarrow> RubricCriterion list \<Rightarrow> number \<Rightarrow> number" where
  "criteria_loop rs [] catScore = catScore"
| "criteria_loop rs (c # cs) catScore =
     criteria_loop rs cs
       (num_add catScore (num_mul (ratingToScore_operand (rating_of rs (rc_id c))) (rc_weight c)))"

text \<open>The outer loop, on \<open>total\<close>.\<close>

fun categories_loop :: "(string \<rightharpoonup> Rating) \<Rightarrow> Category list \<Rightarrow> number \<Rightarrow> number" where
  "categories_loop rs [] total' = total'"
| "categories_loop rs (cat # cats) total' =
     categories_loop rs cats
       (num_add total' (num_mul (clamp01 (criteria_loop rs (criteria cat) (Fin 0))) (cat_weight cat)))"

definition overallScore :: "SolicitationConfig \<Rightarrow> (string \<rightharpoonup> Rating) \<Rightarrow> number" where
  "overallScore cfg rs =
     toFixed1 (num_mul (categories_loop rs (categories cfg) (Fin 0)) (Fin 100))"

section \<open>The score formula of the specification\<close>

text \<open>
  The formula as the specification words it, written down without the functions of the
  program. The five ordinal ratings map to 1.0, 0.8, 0.6, 0.4 and 0.2; a criterion that
  is absent from the rating set counts as Acceptable; the subtotal of a category is the
  sum over its criteria of score times weight, clamped to the interval from 0 to 1; the
  total is the sum over the categories of clamped subtotal times category weight; the
  score is the total times 100, rounded to one decimal. Sums and products are those of
  the Numbers, each sum taken from 0 in list order, and a decimal is the nearest double.
\<close>

definition spec_rating_score :: "Rating \<Rightarrow> number" where
  "spec_rating_score r =
     (case r of
        Excellent \<Rightarrow> rnd (10 / 10)
      | Good \<Rightarrow> rnd (8 / 10)
      | Acceptable \<Rightarrow> rnd (6 / 10)
      | Marginal \<Rightarrow> rnd (4 / 10)
      | Poor \<Rightarrow> rnd (2 / 10))"

definition spec_rating :: "(string \<rightharpoonup> Rating) \<Rightarrow> string \<Rightarrow> Rating" where
  "spec_rating rs k = (case rs k of None \<Rightarrow> Acceptable | Some r \<Rightarrow> r)"

definition spec_clamp :: "number \<Rightarrow> number" where
  "spec_clamp v = (if num_le v (Fin 0) then Fin 0 else if num_le (Fin 1) v then Fin 1 else v)"

text \<open>
  Rounding to one decimal: the multiple of \<open>1/10\<close> nearest to the magnitude, with the
  sign put back, as a double. A value too large to have a decimal place, or not finite,
  is left as it is.
\<close>

definition spec_round1 :: "number \<Rightarrow> number" where
  "spec_round1 v =
     (case v of
        Fin x \<Rightarrow>
          if \<bar>x\<bar> < 10 ^ 21
          then (if 0 \<le> x then rnd (of_int (round (x * 10)) / 10)
                else num_neg (rnd (of_int (round (- x * 10)) / 10)))
          else v
      | _ \<Rightarrow> v)"

definition spec_subtotal :: "(string \<rightharpoonup> Rating) \<Rightarrow> Category \<Rightarrow> number" where
  "spec_subtotal rs cat =
     foldl num_add (Fin 0)
       (map (\<lambda>c. num_mul (spec_rating_score (spec_rating rs (rc_id c))) (rc_weight c))
            (criteria cat))"

definition spec_score :: "SolicitationConfig \<Rightarrow> (string \<rightharpoonup> Rating) \<Rightarrow> number" where
  "spec_score cfg rs =
     spec_round1 (num_mul
       (foldl num_add (Fin 0)
          (map (\<lambda>cat. num_mul (spec_clamp (spec_subtotal rs cat)) (cat_weight cat)) (categories cfg)))
       (Fin 100))"

text \<open>The summand of each loop.\<close>

definition criterion_term :: "(string \<rightharpoonup> Rating) \<Rightarrow> RubricCriterion \<Rightarrow> number" where
  "criterion_term rs c = num_mul (ratingToScore_operand (rating_of rs (rc_id c))) (rc_weight c)"

definition category_term :: "(string \<rightharpoonup> Rating) \<Rightarrow> Category \<Rightarrow> number" where
  "category_term rs cat =
     num_mul (clamp01 (foldl num_add (Fin 0) (map (criterion_term rs) (criteria cat)))) (cat_weight cat)"

section \<open>The score formula in exact arithmetic\<close>

text \<open>
  The same formula over the rationals, without any rounding: the value the program
  approximates. \<open>fin_val\<close> reads a finite number as the rational it is.
\<close>

definition fin_val :: "number \<Rightarrow> rat" where
  "fin_val v = (case v of Fin x \<Rightarrow> x | _ \<Rightarrow> 0)"

definition exact_term :: "(string \<rightharpoonup> Rating) \<Rightarrow> RubricCriterion \<Rightarrow> rat" where
  "exact_term rs c =
     fin_val (ratingToScore_operand (rating_of rs (rc_id c))) * fin_val (rc_weight c)"

definition exact_subtotal :: "(string \<rightharpoonup> Rating) \<Rightarrow> Category \<Rightarrow> rat" where
  "exact_subtotal rs cat = sum_list (map (exact_term rs) (criteria cat))"

definition exact_total :: "(string \<rightharpoonup> Rating) \<Rightarrow> Category list \<Rightarrow> rat" where
  "exact_total rs cats =
     sum_list (map (\<lambda>cat. max 0 (min 1 (exact_subtotal rs cat)) * fin_val (cat_weight cat)) cats)"

text \<open>The clamped subtotal the program computes for a category, as a rational.\<close>

definition clamped_subtotal :: "(string \<rightharpoonup> Rating) \<Rightarrow> Category \<Rightarrow> rat" where
  "clamped_subtotal rs cat = fin_val (clamp01 (criteria_loop rs (criteria cat) (Fin 0)))"

section \<open>Well-formed weights\<close>

text \<open>
  A list of weights is nominal when every weight is a finite non-negative number, there
  are at most \<open>2^20\<close> of them, and they sum to at most 1, up to one part in a million
  (the doubles nearest to 0.45, 0.35 and 0.2 do not sum to 1 exactly).
\<close>

definition nonneg_fin :: "number \<Rightarrow> bool" where
  "nonneg_fin v = (case v of Fin x \<Rightarrow> 0 \<le> x | _ \<Rightarrow> False)"

definition weights_ok :: "number list \<Rightarrow> bool" where
  "weights_ok ws \<longleftrightarrow>
     list_all nonneg_fin ws \<and> length ws \<le> 2 ^ 20 \<and> sum_list (map fin_val ws) \<le> 1 + 1 / 10 ^ 6"

definition nominal :: "Category list \<Rightarrow> bool" where
  "nominal cats \<longleftrightarrow>
     weights_ok (map cat_weight cats)
     \<and> list_all (\<lambda>cat. weights_ok (map rc_weight (criteria cat))) cats"

text \<open>
  An Array has at most \<open>2^32 - 1\<close> elements. The weights of an array are in range when
  every one is a finite non-negative number and they sum to at most 1, up to one part in a
  million.
\<close>

definition array_weights :: "number list \<Rightarrow> bool" where
  "array_weights ws \<longleftrightarrow>
     list_all nonneg_fin ws \<and> length ws < 2 ^ 32 \<and> sum_list (map fin_val ws) \<le> 1 + 1 / 10 ^ 6"

text \<open>
  The same with the number of weights bounded through \<open>b\<close>, the rounding error that
  adding up that many terms below 2 can accumulate, \<open>2^-53\<close> for each.
\<close>

definition weights_upto :: "rat \<Rightarrow> number list \<Rightarrow> bool" where
  "weights_upto b ws \<longleftrightarrow>
     list_all nonneg_fin ws \<and> of_nat (length ws) * (1 / 2 ^ 53) \<le> b
     \<and> sum_list (map fin_val ws) \<le> 1 + 1 / 10 ^ 6"

text \<open>
  No criterion of the categories reads an inherited member: each has a rating of its own,
  or an id that names no member of \<open>Object.prototype\<close>.
\<close>

definition inherited_free :: "(string \<rightharpoonup> Rating) \<Rightarrow> Category list \<Rightarrow> bool" where
  "inherited_free rs cats \<longleftrightarrow>
     list_all (\<lambda>cat. list_all (\<lambda>c. rating_of rs (rc_id c) \<noteq> Inherited) (criteria cat)) cats"

text \<open>A weight that is a finite number within the range of the doubles.\<close>

definition finite_weight :: "number \<Rightarrow> bool" where
  "finite_weight v = (case v of Fin x \<Rightarrow> \<bar>x\<bar> \<le> (2 ^ 53 - 1) * 2 ^ 971 | _ \<Rightarrow> False)"

definition finite_criteria :: "Category list \<Rightarrow> bool" where
  "finite_criteria cats \<longleftrightarrow>
     list_all (\<lambda>cat. list_all (\<lambda>c. finite_weight (rc_weight c)) (criteria cat)) cats"

text \<open>
  A category whose criterion weights are in range and sum to 1 within one part in a
  million, and whose criteria are all rated Acceptable, explicitly or by default.
\<close>

definition all_acceptable_near_one :: "(string \<rightharpoonup> Rating) \<Rightarrow> Category \<Rightarrow> bool" where
  "all_acceptable_near_one rs cat \<longleftrightarrow>
     array_weights (map rc_weight (criteria cat))
     \<and> 1 - 1 / 10 ^ 6 \<le> sum_list (map (\<lambda>c. fin_val (rc_weight c)) (criteria cat))
     \<and> list_all (\<lambda>c. rating_of rs (rc_id c) = Label Acceptable) (criteria cat)"

section \<open>Reordering\<close>

text \<open>
  Two category lists are reorderings of each other when they hold the same categories,
  each with the same criteria, in any order of the categories and of the criteria within
  each category.
\<close>

definition cat_sig :: "Category \<Rightarrow> string \<times> number \<times> RubricCriterion multiset" where
  "cat_sig cat = (cat_id cat, cat_weight cat, mset (criteria cat))"

definition reordered :: "Category list \<Rightarrow> Category list \<Rightarrow> bool" where
  "reordered cats cats' \<longleftrightarrow> mset (map cat_sig cats) = mset (map cat_sig cats')"

text \<open>
  The exact total \<open>e\<close> is clear of ties when \<open>1000 * e\<close>, the score in tenths before
  rounding, is at least \<open>10^-6\<close> away from every half-integer, where \<open>toFixed(1)\<close>
  switches from one decimal to the next.
\<close>

definition clear_of_ties :: "rat \<Rightarrow> bool" where
  "clear_of_ties e \<longleftrightarrow>
     (let y = 1000 * e + 1 / 2
      in 1 / 10 ^ 6 \<le> y - of_int \<lfloor>y\<rfloor> \<and> y - of_int \<lfloor>y\<rfloor> \<le> 1 - 1 / 10 ^ 6)"

section \<open>Default configuration\<close>

text \<open>\<open>DEFAULT_CONFIG\<close>; a decimal literal is the nearest double.\<close>

definition DEFAULT_MANDATORY :: "MandatoryCriterion list" where
  "DEFAULT_MANDATORY =
    [\<lparr>mc_id = ''costCap'', extractorKey = Some ''cost_total'',
       limit = Some \<lparr>kind = KNumber, limit_value = Fin 1250000\<rparr>, required = True\<rparr>,
     \<lparr>mc_id = ''popCap'', extractorKey = Some ''pop_months'',
       limit = Some \<lparr>kind = KMonths, limit_value = Fin 21\<rparr>, required = True\<rparr>,
     \<lparr>mc_id = ''cmSigned'', extractorKey = Some ''cm_signed'', limit = None, required = True\<rparr>,
     \<lparr>mc_id = ''pages'', extractorKey = Some ''tv_pages'',
       limit = Some \<lparr>kind = KPages, limit_value = Fin 15\<rparr>, required = True\<rparr>,
     \<lparr>mc_id = ''rcf'', extractorKey = Some ''rcf_present'', limit = None, required = True\<rparr>]"

definition DEFAULT_ADDITIONAL :: "MandatoryCriterion list" where
  "DEFAULT_ADDITIONAL =
    [\<lparr>mc_id = ''fwa'', extractorKey = Some ''fwa_present'', limit = None, required = False\<rparr>,
     \<lparr>mc_id = ''vol7'', extractorKey = Some ''vol7_present'', limit = None, required = False\<rparr>,
     \<lparr>mc_id = ''pow'', extractorKey = Some ''pow_ok'', limit = None, required = False\<rparr>]"

definition TECH :: Category where
  "TECH = \<lparr>cat_id = ''TECH'', cat_weight = rnd (45 / 100), criteria =
    [\<lparr>rc_id = ''tech_problem'', rc_weight = rnd (2 / 10)\<rparr>,
     \<lparr>rc_id = ''tech_approach'', rc_weight = rnd (35 / 100)\<rparr>,
     \<lparr>rc_id = ''tech_risk'', rc_weight = rnd (15 / 100)\<rparr>,
     \<lparr>rc_id = ''tech_innov'', rc_weight = rnd (15 / 100)\<rparr>,
     \<lparr>rc_id = ''team'', rc_weight = rnd (15 / 100)\<rparr>]\<rparr>"

definition DEF_NEED :: Category where
  "DEF_NEED = \<lparr>cat_id = ''DEF_NEED'', cat_weight = rnd (35 / 100), criteria =
    [\<lparr>rc_id = ''mission_impact'', rc_weight = rnd (35 / 100)\<rparr>,
     \<lparr>rc_id = ''breadth'', rc_weight = rnd (2 / 10)\<rparr>,
     \<lparr>rc_id = ''specificity'', rc_weight = rnd (3 / 10)\<rparr>,
     \<lparr>rc_id = ''docs'', rc_weight = rnd (15 / 100)\<rparr>]\<rparr>"

definition COMM :: Category where
  "COMM = \<lparr>cat_id = ''COMM'', cat_weight = rnd (2 / 10), criteria =
    [\<lparr>rc_id = ''market'', rc_weight = rnd (35 / 100)\<rparr>,
     \<lparr>rc_id = ''biz'', rc_weight = rnd (3 / 10)\<rparr>,
     \<lparr>rc_id = ''interest'', rc_weight = rnd (2 / 10)\<rparr>,
     \<lparr>rc_id = ''docs_comm'', rc_weight = rnd (15 / 100)\<rparr>]\<rparr>"

definition DEFAULT_CONFIG :: SolicitationConfig where
  "DEFAULT_CONFIG =
    \<lparr>mandatory = DEFAULT_MANDATORY,
     additional = Some DEFAULT_ADDITIONAL,
     categories = [TECH, DEF_NEED, COMM],
     pagePolicy = Some \<lparr>techVolumeMaxPages = Some (Fin 15),
                        excludes = Some [''Coversheet'', ''Glossary'', ''Table of Contents'']\<rparr>,
     costCapUSD = Some (Fin 1250000),
     maxPoPMonths = Some (Fin 21)\<rparr>"

text \<open>The initial state of \<open>proposalMeta\<close>.\<close>

definition initial_proposalMeta :: ProposalMetadata where
  "initial_proposalMeta =
    \<lparr>title = '''', company = '''', topicNumber = '''', cmSigned = False, tvPages = Fin 0,
     popMonths = Fin 0, costTotal = Fin 0, rcfPresent = False, fwaPresent = False,
     vol7Present = False, powOk = False\<rparr>"

section \<open>Scoring endpoint\<close>

text \<open>
  The route handler \<open>POST\<close>. A JavaScript string is a sequence of UTF-16 code units, which
  is what \<open>slice\<close> counts.
\<close>

type_synonym jsstring = "16 word list"

definition lit :: "string \<Rightarrow> jsstring" where
  "lit s = map (\<lambda>c. word_of_nat (of_char c)) s"

datatype json =
    JNull
  | JBool bool
  | JNum number
  | JStr jsstring
  | JArr "json list"
  | JObj "(jsstring \<times> json) list"

text \<open>A thrown value, reduced to what the handler reads of it: \<open>e?.message\<close>.\<close>

datatype thrown = Thrown (message: "jsstring option")

record chat_message =
  role :: jsstring
  content :: jsstring

record chat_request =
  model :: jsstring
  messages :: "chat_message list"
  response_format :: jsstring

record choice =
  message_content :: "jsstring option"

record completion =
  choices :: "choice list"

text \<open>
  What the handler takes from its platform: the JSON parser (\<open>Inl\<close> is the SyntaxError it
  throws), the constructor of the client (which throws when no credential is configured),
  the completion call (which throws on a network or authentication failure), the TypeError
  the engine throws for a call of something that is not a function, a read of a property
  of \<open>undefined\<close> or \<open>null\<close> or an object without a primitive value, and the decimal
  form in which the engine prints a Number.
\<close>

record platform =
  JSON_parse :: "jsstring \<Rightarrow> thrown + json"
  OpenAI_new :: "thrown option"
  chat_create :: "chat_request \<Rightarrow> thrown + completion"
  TypeError :: thrown
  Number_toString :: "number \<Rightarrow> jsstring"

record response =
  status :: nat
  body :: json

datatype outcome = Responded response | Uncaught thrown

text \<open>Reading property \<open>text\<close> of a parsed value; the last of duplicate keys wins.\<close>

fun text_of :: "json \<Rightarrow> json option" where
  "text_of (JObj kvs) = map_of (rev kvs) (lit ''text'')"
| "text_of _ = None"

text \<open>
  The string a template literal makes of a value parsed from JSON. An array is joined
  with commas, \<open>null\<close> elements counting as empty strings; the first element that throws
  ends the conversion. A parsed object prints as \<open>[object Object]\<close>, unless it has a
  property \<open>toString\<close> of its own: no parsed value is a function, its inherited
  \<open>valueOf\<close> returns the object itself, and the conversion throws a TypeError.
\<close>

fun join_elements :: "(thrown + jsstring) list \<Rightarrow> thrown + jsstring" where
  "join_elements [] = Inr []"
| "join_elements [r] = r"
| "join_elements (r # rs) =
     (case r of
        Inl e \<Rightarrow> Inl e
      | Inr s \<Rightarrow> (case join_elements rs of Inl e \<Rightarrow> Inl e | Inr t \<Rightarrow> Inr (s @ lit '','' @ t)))"

fun ToString :: "platform \<Rightarrow> json \<Rightarrow> thrown + jsstring" where
  "ToString p JNull = Inr (lit ''null'')"
| "ToString p (JBool b) = Inr (lit (if b then ''true'' else ''false''))"
| "ToString p (JNum n) = Inr (Number_toString p n)"
| "ToString p (JStr s) = Inr s"
| "ToString p (JArr xs) =
     join_elements (map (\<lambda>x. if x = JNull then Inr [] else ToString p x) xs)"
| "ToString p (JObj kvs) =
     (if lit ''toString'' \<in> fst ` set kvs then Inl (TypeError p)
      else Inr (lit ''[object Object]''))"

text \<open>
  \<open>text?.slice(0, 6000) || ""\<close> inside the template literal. A string and an array have
  \<open>slice\<close>; a number, a boolean and an object parsed from JSON have no function of that
  name. The slice of a string is a string, taken as it is or replaced by \<open>""\<close> when
  empty. The slice of an array is an array of at most 6000 elements, which is truthy and
  is converted to a string.
\<close>

fun section_text :: "platform \<Rightarrow> json option \<Rightarrow> thrown + jsstring" where
  "section_text p None = Inr []"
| "section_text p (Some JNull) = Inr []"
| "section_text p (Some (JStr s)) = Inr (take 6000 s)"
| "section_text p (Some (JArr xs)) = ToString p (JArr (take 6000 xs))"
| "section_text p (Some _) = Inl (TypeError p)"

text \<open>\<open>JSON.stringify(rubric)\<close>\<close>

definition rubric_json :: jsstring where
  \<open>rubric_json = lit (
     ''[{"key":"Significance","weight":1.2,"guidance":"Impact & problem clarity"},'' @
     ''{"key":"Innovation","weight":1,"guidance":"Novelty & differentiation"},'' @
     ''{"key":"Approach","weight":1.4,"guidance":"Method, risks, milestones"},'' @
     ''{"key":"Team/PI","weight":0.8,"guidance":"Qualifications & gaps"},'' @
     ''{"key":"Commercialization","weight":1.6,"guidance":"Path to revenue & market"}]'')\<close>

definition prompt_prefix :: jsstring where
  "prompt_prefix =
     lit ''Rubric: '' @ rubric_json @ lit [CHR 0x0A] @ lit ''---'' @ lit [CHR 0x0A] @
     lit ''Section:'' @ lit [CHR 0x0A]"

definition system_content :: jsstring where
  "system_content =
     lit ''You are an SBIR evaluator. Return strictly JSON with {items:[{criterion_key,score,rationale}]}''"

definition make_request :: "jsstring \<Rightarrow> chat_request" where
  "make_request sect =
     \<lparr>model = lit ''gpt-4o-mini'',
      messages = [\<lparr>role = lit ''system'', content = system_content\<rparr>,
                  \<lparr>role = lit ''user'', content = prompt_prefix @ sect\<rparr>],
      response_format = lit ''json_object''\<rparr>"

text \<open>The \<open>catch\<close> block: \<open>{ error: e?.message || "failed", items: [] }\<close> with status 500.\<close>

definition error_response :: "thrown \<Rightarrow> response" where
  "error_response e =
     \<lparr>status = 500,
      body = JObj [(lit ''error'',
                    JStr (case message e of
                            None \<Rightarrow> lit ''failed''
                          | Some m \<Rightarrow> if m = [] then lit ''failed'' else m)),
                   (lit ''items'', JArr [])]\<rparr>"

text \<open>\<open>res.choices[0].message.content || '{"items":[]}'\<close>\<close>

definition content_or_default :: "jsstring option \<Rightarrow> jsstring" where
  \<open>content_or_default c =
     (case c of None \<Rightarrow> lit ''{"items":[]}''
      | Some s \<Rightarrow> if s = [] then lit ''{"items":[]}'' else s)\<close>

text \<open>
  The statements of the \<open>try\<close> block in order, each failure going to the \<open>catch\<close> block.
  The second component is the list of requests sent to the completion service.
\<close>

definition try_block :: "platform \<Rightarrow> json option \<Rightarrow> response \<times> chat_request list" where
  "try_block p text =
     (case OpenAI_new p of
        Some e \<Rightarrow> (error_response e, [])
      | None \<Rightarrow>
         (case section_text p text of
            Inl e \<Rightarrow> (error_response e, [])
          | Inr sect \<Rightarrow>
             (case chat_create p (make_request sect) of
                Inl e \<Rightarrow> (error_response e, [make_request sect])
              | Inr res \<Rightarrow>
                 (case choices res of
                    [] \<Rightarrow> (error_response (TypeError p), [make_request sect])
                  | ch # _ \<Rightarrow>
                     (case JSON_parse p (content_or_default (message_content ch)) of
                        Inl e \<Rightarrow> (error_response e, [make_request sect])
                      | Inr data \<Rightarrow> (\<lparr>status = 200, body = data\<rparr>, [make_request sect]))))))"

text \<open>
  The handler, from the text of the request body. The first two statements, parsing the
  body (\<open>JSON.parse(body || '{}')\<close>) and destructuring \<open>text\<close> out of the result, stand
  before the \<open>try\<close> block.
\<close>

definition POST :: "platform \<Rightarrow> jsstring \<Rightarrow> outcome \<times> chat_request list" where
  "POST p req_body =
     (case JSON_parse p (if req_body = [] then lit ''{}'' else req_body) of
        Inl e \<Rightarrow> (Uncaught e, [])
      | Inr JNull \<Rightarrow> (Uncaught (TypeError p), [])
      | Inr v \<Rightarrow> (let (r, sent) = try_block p (text_of v) in (Responded r, sent)))"

section \<open>Concrete inputs\<close>

text \<open>The two milestones the component starts with, and the one \<open>addMilestone\<close> appends.\<close>

definition milestone_m1 :: Milestone where
  "milestone_m1 =
    \<lparr>ms_id = ''m1'', ms_title = ''M1: Architecture & Test Plan'',
     description = ''Baseline architecture, verification plan, KPIs.'',
     rdCentric = True, measurable = True, ms_start = '''', ms_end = ''''\<rparr>"

definition milestone_m3 :: Milestone where
  "milestone_m3 =
    \<lparr>ms_id = ''m3'', ms_title = ''M3: New Milestone'', description = '''',
     rdCentric = True, measurable = False, ms_start = '''', ms_end = ''''\<rparr>"

text \<open>The proposal of the worked example, every other field as the component starts.\<close>

definition example_proposalMeta :: ProposalMetadata where
  "example_proposalMeta = initial_proposalMeta\<lparr>costTotal := Fin 1180000, tvPages := Fin 14\<rparr>"

text \<open>The same proposal with the signed memorandum and the compliance form present.\<close>

definition compliant_proposalMeta :: ProposalMetadata where
  "compliant_proposalMeta = example_proposalMeta\<lparr>cmSigned := True, rcfPresent := True\<rparr>"



text \<open>
  A parser that knows one document, and a state of the component whose text area holds
  either that document or text that is not JSON.
\<close>

definition raised_cap_config :: SolicitationConfig where
  "raised_cap_config = DEFAULT_CONFIG\<lparr>costCapUSD := Some (Fin 2000000)\<rparr>"

definition one_document_parser :: "string \<Rightarrow> SolicitationConfig option" where
  "one_document_parser t = (if t = ''<the rulepack with the raised cap>'' then Some raised_cap_config else None)"

definition state_with_text :: "string \<Rightarrow> SolicitationConfig app_state" where
  "state_with_text t =
    \<lparr>phase = D2P2, configText = t, ousdreText = '''', config = DEFAULT_CONFIG,
     proposalMeta = initial_proposalMeta, ratings = Map.empty,
     milestones = [milestone_m1], alerts = []\<rparr>"



text \<open>
  A platform for the route handler that parses six documents as \<open>JSON.parse\<close> does and
  rejects every other text, and whose completion service answers with an empty item list.
  None of the documents holds a number, so the platform never prints one.
\<close>

definition long_text :: jsstring where
  "long_text = replicate 7000 97"

definition long_body :: jsstring where
  \<open>long_body = lit ''{"text":"'' @ long_text @ lit ''"}''\<close>

definition null_text_body :: jsstring where
  \<open>null_text_body = lit ''{"text":null}''\<close>

definition array_body :: jsstring where
  \<open>array_body = lit ''{"text":["'' @ long_text @ lit ''"]}''\<close>

definition demo_parse :: "jsstring \<Rightarrow> thrown + json" where
  \<open>demo_parse s =
     (if s = lit ''{}'' then Inr (JObj [])
      else if s = lit ''{"items":[]}'' then Inr (JObj [(lit ''items'', JArr [])])
      else if s = lit ''null'' then Inr JNull
      else if s = null_text_body then Inr (JObj [(lit ''text'', JNull)])
      else if s = long_body then Inr (JObj [(lit ''text'', JStr long_text)])
      else if s = array_body then Inr (JObj [(lit ''text'', JArr [JStr long_text])])
      else Inl (Thrown (Some (lit ''Unexpected token''))))\<close>

definition demo_platform :: platform where
  \<open>demo_platform =
    \<lparr>JSON_parse = demo_parse,
     OpenAI_new = None,
     chat_create = (\<lambda>r. Inr \<lparr>choices = [\<lparr>message_content = Some (lit ''{"items":[]}'')\<rparr>]\<rparr>),
     TypeError = Thrown (Some (lit ''TypeError'')),
     Number_toString = (\<lambda>n. lit ''NaN'')\<rparr>\<close>

text \<open>Rating sets: nothing rated, and one criterion rated.\<close>

definition no_ratings :: "string \<rightharpoonup> Rating" where
  "no_ratings = Map.empty"

definition one_marginal :: "string \<rightharpoonup> Rating" where
  "one_marginal = [''tech_approach'' \<mapsto> Marginal]"

definition one_good :: "string \<rightharpoonup> Rating" where
  "one_good = [''tech_approach'' \<mapsto> Good]"

definition only_excellent :: "string \<rightharpoonup> Rating" where
  "only_excellent = [''only'' \<mapsto> Excellent]"

text \<open>
  The default rulepack with its last two categories exchanged, with the criteria of its
  first category in reverse order, and with both changes at once.
\<close>

definition swapped_config :: SolicitationConfig where
  "swapped_config = DEFAULT_CONFIG\<lparr>categories := [TECH, COMM, DEF_NEED]\<rparr>"

definition reversed_config :: SolicitationConfig where
  "reversed_config =
     DEFAULT_CONFIG\<lparr>categories := [TECH\<lparr>criteria := rev (criteria TECH)\<rparr>, DEF_NEED, COMM]\<rparr>"

definition shuffled_config :: SolicitationConfig where
  "shuffled_config =
     DEFAULT_CONFIG\<lparr>categories := [COMM, TECH\<lparr>criteria := rev (criteria TECH)\<rparr>, DEF_NEED]\<rparr>"

text \<open>Rulepacks with a single category of weight 2 and of weight -1.\<close>

definition heavy_config :: SolicitationConfig where
  "heavy_config = DEFAULT_CONFIG\<lparr>categories :=
     [\<lparr>cat_id = ''ONLY'', cat_weight = Fin 2,
       criteria = [\<lparr>rc_id = ''only'', rc_weight = Fin 1\<rparr>]\<rparr>]\<rparr>"

definition negative_config :: SolicitationConfig where
  "negative_config = DEFAULT_CONFIG\<lparr>categories :=
     [\<lparr>cat_id = ''ONLY'', cat_weight = Fin (- 1),
       criteria = [\<lparr>rc_id = ''only'', rc_weight = Fin 1\<rparr>]\<rparr>]\<rparr>"

text \<open>
  The default categories, each with two criteria of weights \<open>2^53\<close> and \<open>1 - 2^53\<close>.
  Both are doubles, and they sum to 1, exactly and in double arithmetic.
\<close>

definition cancelling_criteria :: "RubricCriterion list" where
  "cancelling_criteria =
     [\<lparr>rc_id = ''big'', rc_weight = Fin (2 ^ 53)\<rparr>,
      \<lparr>rc_id = ''back'', rc_weight = Fin (1 - 2 ^ 53)\<rparr>]"

definition cancelling_config :: SolicitationConfig where
  "cancelling_config = DEFAULT_CONFIG\<lparr>categories :=
     [TECH\<lparr>criteria := cancelling_criteria\<rparr>, DEF_NEED\<lparr>criteria := cancelling_criteria\<rparr>,
      COMM\<lparr>criteria := cancelling_criteria\<rparr>]\<rparr>"

text \<open>
  The default rulepack with a single criterion in its first category, named
  \<open>constructor\<close>, and with two criteria there whose weights are written \<open>1e999\<close> and
  \<open>-1e999\<close>, which \<open>JSON.parse\<close> reads as the two infinities.
\<close>

definition constructor_config :: SolicitationConfig where
  "constructor_config = DEFAULT_CONFIG\<lparr>categories :=
     [TECH\<lparr>criteria := [\<lparr>rc_id = ''constructor'', rc_weight = Fin 1\<rparr>]\<rparr>, DEF_NEED, COMM]\<rparr>"

definition infinite_config :: SolicitationConfig where
  "infinite_config = DEFAULT_CONFIG\<lparr>categories :=
     [TECH\<lparr>criteria := [\<lparr>rc_id = ''tech_problem'', rc_weight = PInf\<rparr>,
                          \<lparr>rc_id = ''tech_risk'', rc_weight = NInf\<rparr>]\<rparr>,
      DEF_NEED, COMM]\<rparr>"

text \<open>The default rulepack with criterion weights 3 and -7 in its first category.\<close>

definition lopsided_config :: SolicitationConfig where
  "lopsided_config = DEFAULT_CONFIG\<lparr>categories :=
     [TECH\<lparr>criteria := [\<lparr>rc_id = ''tech_problem'', rc_weight = Fin 3\<rparr>,
                          \<lparr>rc_id = ''tech_risk'', rc_weight = Fin (- 7)\<rparr>]\<rparr>,
      DEF_NEED, COMM]\<rparr>"

section \<open>Evaluating the rounding function\<close>

lemma bitlen_1: "bitlen 1 = 1"
  by (subst compute_bitlen) (simp add: bitlen_def floorlog_def)

lemma bitlen_numeral: "bitlen (numeral n) = int (num_len n)"
proof (induction n)
  case One
  show ?case by (simp add: bitlen_1)
next
  case (Bit0 n)
  have "bitlen (numeral (Num.Bit0 n)) = bitlen (numeral (Num.Bit0 n) div 2) + 1"
    by (subst compute_bitlen) simp
  then show ?case using Bit0 by simp
next
  case (Bit1 n)
  have "bitlen (numeral (Num.Bit1 n)) = bitlen (numeral (Num.Bit1 n) div 2) + 1"
    by (subst compute_bitlen) simp
  then show ?case using Bit1 by simp
qed

lemma floor_rat_div_numeral: "\<lfloor>numeral a / numeral b :: rat\<rfloor> = numeral a div numeral b"
  by (metis floor_divide_of_int_eq of_int_numeral)

lemma floor_rat_one_div_numeral: "\<lfloor>1 / numeral b :: rat\<rfloor> = 1 div numeral b"
  by (metis floor_divide_of_int_eq of_int_numeral of_int_1)

lemmas rnd_eval = rnd_def ilog2_def two_pow_def round_half_even_def Let_def
  bitlen_numeral bitlen_1 floor_rat_div_numeral floor_rat_one_div_numeral

section \<open>Properties of rounding\<close>

subsection \<open>Powers of two and the binary exponent\<close>

lemma two_pow_powi: "two_pow e = 2 powi e"
  by (simp add: two_pow_def power_int_def inverse_eq_divide power_divide)

lemma two_pow_pos: "0 < two_pow e"
  by (simp add: two_pow_powi)

lemma two_pow_add: "two_pow (a + b) = two_pow a * two_pow b"
  by (simp add: two_pow_powi power_int_add)

lemma two_pow_strict_mono: "a < b \<Longrightarrow> two_pow a < two_pow b"
  by (simp add: two_pow_powi power_int_strict_increasing)

lemma two_pow_mono: "a \<le> b \<Longrightarrow> two_pow a \<le> two_pow b"
  by (simp add: two_pow_powi power_int_increasing)

lemma two_pow_less_cancel: "two_pow a < two_pow b \<Longrightarrow> a < b"
  using two_pow_mono [of b a] by (cases "a < b") auto

lemma two_pow_nat: "0 \<le> e \<Longrightarrow> two_pow e = 2 ^ nat e"
  by (simp add: two_pow_def)

lemma two_pow_half: "two_pow (e - 1) = two_pow e / 2"
  using two_pow_add [of "e - 1" 1] by (simp add: two_pow_def)

lemma bitlen_floor_bounds:
  fixes y :: rat
  assumes "1 \<le> y"
  shows "0 \<le> bitlen \<lfloor>y\<rfloor> - 1"
    and "2 ^ nat (bitlen \<lfloor>y\<rfloor> - 1) \<le> y"
    and "y < 2 ^ nat (bitlen \<lfloor>y\<rfloor>)"
proof -
  have pos: "0 < \<lfloor>y\<rfloor>" using assms by simp
  from bitlen_bounds [OF pos]
  have lo: "2 ^ nat (bitlen \<lfloor>y\<rfloor> - 1) \<le> \<lfloor>y\<rfloor>" and hi: "\<lfloor>y\<rfloor> < 2 ^ nat (bitlen \<lfloor>y\<rfloor>)"
    by simp_all
  show "0 \<le> bitlen \<lfloor>y\<rfloor> - 1"
    using pos bitlen_eq_zero_iff [of "\<lfloor>y\<rfloor>"] bitlen_nonneg [of "\<lfloor>y\<rfloor>"] by linarith
  have "(2::rat) ^ nat (bitlen \<lfloor>y\<rfloor> - 1) = of_int (2 ^ nat (bitlen \<lfloor>y\<rfloor> - 1))"
    by simp
  also have "\<dots> \<le> of_int \<lfloor>y\<rfloor>"
    using lo by (simp only: of_int_le_iff)
  also have "\<dots> \<le> y"
    by (rule of_int_floor_le)
  finally show "2 ^ nat (bitlen \<lfloor>y\<rfloor> - 1) \<le> y" .
  have "\<lfloor>y\<rfloor> + 1 \<le> 2 ^ nat (bitlen \<lfloor>y\<rfloor>)"
    using hi by simp
  then have le: "(of_int (\<lfloor>y\<rfloor> + 1) :: rat) \<le> of_int (2 ^ nat (bitlen \<lfloor>y\<rfloor>))"
    by (simp only: of_int_le_iff)
  have "y < of_int (\<lfloor>y\<rfloor> + 1)"
    by (metis floor_less_iff less_add_one)
  also note le
  also have "(of_int (2 ^ nat (bitlen \<lfloor>y\<rfloor>)) :: rat) = 2 ^ nat (bitlen \<lfloor>y\<rfloor>)"
    by simp
  finally show "y < 2 ^ nat (bitlen \<lfloor>y\<rfloor>)" .
qed

lemma ilog2_bounds:
  assumes "0 < x"
  shows "two_pow (ilog2 x) \<le> x" and "x < two_pow (ilog2 x + 1)"
proof -
  have "two_pow (ilog2 x) \<le> x \<and> x < two_pow (ilog2 x + 1)"
  proof (cases "1 \<le> x")
    case True
    from bitlen_floor_bounds [OF True] show ?thesis
      using True by (simp add: ilog2_def two_pow_nat)
  next
    case False
    define y where "y = 1 / x"
    define b where "b = bitlen \<lfloor>y\<rfloor> - 1"
    have y1: "1 \<le> y" using False assms by (simp add: y_def)
    from bitlen_floor_bounds [OF y1]
    have b0: "0 \<le> b" and lo: "2 ^ nat b \<le> y" and hi: "y < 2 ^ nat (b + 1)"
      by (simp_all add: b_def)
    have xy: "x = 1 / y" using assms by (simp add: y_def)
    have p1: "two_pow (- b) = 1 / 2 ^ nat b"
      using b0 by (simp add: two_pow_def)
    have p2: "two_pow (- b - 1) = 1 / 2 ^ nat (b + 1)"
      using b0 by (simp add: two_pow_def nat_add_distrib)
    have xle: "x \<le> two_pow (- b)"
      using lo y1 unfolding xy p1 by (simp add: field_simps)
    have xgt: "two_pow (- b - 1) < x"
      using hi y1 unfolding xy p2 by (simp add: field_simps)
    have il: "ilog2 x = (if x = two_pow (- b) then - b else - b - 1)"
      using False by (simp add: ilog2_def b_def y_def Let_def)
    show ?thesis
    proof (cases "x = two_pow (- b)")
      case True
      have e: "ilog2 x = - b"
        unfolding il using True by (rule if_P)
      have "two_pow (- b) < two_pow (- b + 1)"
        by (rule two_pow_strict_mono) simp
      then show ?thesis
        unfolding e using True by linarith
    next
      case neq: False
      have e: "ilog2 x = - b - 1"
        unfolding il using neq by (rule if_not_P)
      have "- b - 1 + 1 = - b" by simp
      then show ?thesis
        unfolding e using xle xgt neq by (simp only:) linarith
    qed
  qed
  then show "two_pow (ilog2 x) \<le> x" and "x < two_pow (ilog2 x + 1)" by simp_all
qed

lemma ilog2_le:
  assumes "0 < x" and "x < two_pow (k + 1)"
  shows "ilog2 x \<le> k"
proof -
  have "two_pow (ilog2 x) < two_pow (k + 1)"
    using ilog2_bounds(1) [OF assms(1)] assms(2) by simp
  then show ?thesis using two_pow_less_cancel by fastforce
qed

subsection \<open>The error of one rounding\<close>

lemma round_half_even_err: "\<bar>of_int (round_half_even y) - y\<bar> \<le> 1 / 2"
proof -
  have "of_int \<lfloor>y\<rfloor> \<le> y" "y < of_int \<lfloor>y\<rfloor> + 1"
    using floor_correct [of y] by simp_all
  then show ?thesis
    by (auto simp: round_half_even_def Let_def)
qed

lemma round_half_even_ge:
  assumes "of_int N \<le> y"
  shows "N \<le> round_half_even y"
proof -
  have "N \<le> \<lfloor>y\<rfloor>" using assms by (simp add: le_floor_iff)
  then show ?thesis by (auto simp: round_half_even_def Let_def)
qed

lemma round_half_even_le:
  assumes "y \<le> of_int N"
  shows "round_half_even y \<le> N"
proof (cases "\<lfloor>y\<rfloor> = N")
  case True
  then have "y - of_int \<lfloor>y\<rfloor> \<le> 0" using assms by simp
  then show ?thesis using True by (auto simp: round_half_even_def Let_def)
next
  case False
  have "\<lfloor>y\<rfloor> \<le> N" using assms by (simp add: floor_le_iff) 
  then have "\<lfloor>y\<rfloor> + 1 \<le> N" using False by simp
  then show ?thesis by (auto simp: round_half_even_def Let_def)
qed

lemma scaled_round_err:
  "\<bar>of_int (round_half_even (a / two_pow e)) * two_pow e - a\<bar> \<le> two_pow (e - 1)"
proof -
  define p where "p = two_pow e"
  define m :: rat where "m = of_int (round_half_even (a / p))"
  have p: "0 < p" by (simp add: p_def two_pow_pos)
  have "\<bar>m - a / p\<bar> \<le> 1 / 2"
    unfolding m_def by (rule round_half_even_err)
  then have "\<bar>m - a / p\<bar> * p \<le> 1 / 2 * p"
    using p by (intro mult_right_mono) simp_all
  moreover have "\<bar>m - a / p\<bar> * p = \<bar>m * p - a\<bar>"
  proof -
    have "\<bar>m - a / p\<bar> * p = \<bar>(m - a / p) * p\<bar>"
      using p by (simp add: abs_mult)
    also have "(m - a / p) * p = m * p - a"
      using p by (simp add: field_simps)
    finally show ?thesis .
  qed
  ultimately have "\<bar>m * p - a\<bar> \<le> p / 2" by simp
  then show ?thesis
    by (simp add: m_def p_def two_pow_half)
qed

lemma scaled_round_nonneg:
  assumes "0 \<le> a"
  shows "0 \<le> of_int (round_half_even (a / two_pow e)) * two_pow e"
proof -
  have "(of_int 0 :: rat) \<le> a / two_pow e"
    using assms two_pow_pos [of e] by simp
  then have "0 \<le> round_half_even (a / two_pow e)"
    by (rule round_half_even_ge)
  then show ?thesis
    using two_pow_pos [of e] by simp
qed

lemma rnd_nonzero:
  assumes "x \<noteq> 0"
    and "of_int (round_half_even (\<bar>x\<bar> / two_pow (max (ilog2 \<bar>x\<bar> - 52) (- 1074))))
           * two_pow (max (ilog2 \<bar>x\<bar> - 52) (- 1074)) < 2 ^ 1024"
  shows "rnd x = Fin ((if 0 < x then 1 else - 1)
           * (of_int (round_half_even (\<bar>x\<bar> / two_pow (max (ilog2 \<bar>x\<bar> - 52) (- 1074))))
              * two_pow (max (ilog2 \<bar>x\<bar> - 52) (- 1074))))"
  using assms by (simp add: rnd_def Let_def)

lemma two_pow_1024: "two_pow 1024 = 2 ^ 1024"
  by (simp add: two_pow_def)

lemma rnd_err:
  assumes "\<bar>x\<bar> < two_pow (k + 1)" and "- 1022 \<le> k" and "k \<le> 1022"
  shows "\<exists>r. rnd x = Fin r \<and> \<bar>r - x\<bar> \<le> two_pow (k - 53)
           \<and> (0 \<le> x \<longrightarrow> 0 \<le> r) \<and> (x \<le> 0 \<longrightarrow> r \<le> 0)"
proof (cases "x = 0")
  case True
  then show ?thesis
    using two_pow_pos [of "k - 53"] by (simp add: rnd_def)
next
  case False
  define a where "a = \<bar>x\<bar>"
  define e where "e = max (ilog2 a - 52) (- 1074)"
  define r0 where "r0 = of_int (round_half_even (a / two_pow e)) * two_pow e"
  have a: "0 < a" using False by (simp add: a_def)
  have "ilog2 a \<le> k"
    using a assms(1) by (intro ilog2_le) (simp_all add: a_def)
  then have e: "e \<le> k - 52"
    using assms(2) by (simp add: e_def)
  have err: "\<bar>r0 - a\<bar> \<le> two_pow (k - 53)"
  proof -
    have "\<bar>r0 - a\<bar> \<le> two_pow (e - 1)"
      unfolding r0_def by (rule scaled_round_err)
    also have "\<dots> \<le> two_pow (k - 53)"
      using e by (intro two_pow_mono) simp
    finally show ?thesis .
  qed
  have nonneg: "0 \<le> r0"
    unfolding r0_def using a by (intro scaled_round_nonneg) simp
  have "r0 \<le> a + two_pow (k - 53)"
    using err by linarith
  also have "\<dots> < two_pow (k + 1) + two_pow (k + 1)"
    using assms(1) two_pow_strict_mono [of "k - 53" "k + 1"] by (simp add: a_def)
  also have "\<dots> = two_pow (k + 2)"
    using two_pow_add [of "k + 1" 1] by (simp add: two_pow_def [of 1] add.commute)
  also have "\<dots> \<le> two_pow 1024"
    using assms(3) by (intro two_pow_mono) simp
  finally have small: "r0 < 2 ^ 1024"
    by (simp add: two_pow_1024)
  have "rnd x = Fin ((if 0 < x then 1 else - 1) * r0)"
    using rnd_nonzero [OF False] small
    unfolding r0_def e_def a_def by simp
  moreover have "\<bar>(if 0 < x then 1 else - 1) * r0 - x\<bar> = \<bar>r0 - a\<bar>"
    using False by (auto simp: a_def)
  ultimately show ?thesis
    using err nonneg False by auto
qed

lemma rnd_finite:
  assumes "\<bar>x\<bar> \<le> (2 ^ 53 - 1) * 2 ^ 971"
  shows "\<exists>r. rnd x = Fin r"
proof (cases "x = 0")
  case True
  then show ?thesis by (simp add: rnd_def)
next
  case False
  define a where "a = \<bar>x\<bar>"
  define e where "e = max (ilog2 a - 52) (- 1074)"
  define m where "m = round_half_even (a / two_pow e)"
  have a: "0 < a" using False by (simp add: a_def)
  have "a < two_pow (1023 + 1)"
  proof -
    have "((2::rat) ^ 53 - 1) * 2 ^ 971 < 2 ^ 1024" by simp
    then show ?thesis using assms by (simp add: a_def two_pow_def)
  qed
  then have il: "ilog2 a \<le> 1023"
    using a by (intro ilog2_le)
  have up: "a < two_pow (e + 53)"
  proof -
    have "a < two_pow (ilog2 a + 1)" using a by (rule ilog2_bounds)
    also have "\<dots> \<le> two_pow (e + 53)"
      by (intro two_pow_mono) (simp add: e_def)
    finally show ?thesis .
  qed
  have e53: "two_pow (e + 53) = two_pow e * 2 ^ 53"
    using two_pow_add [of e 53] by (simp add: two_pow_def [of 53])
  have "of_int m * two_pow e < 2 ^ 1024"
  proof (cases "e = 971")
    case True
    have "a / two_pow e \<le> of_int (2 ^ 53 - 1)"
      using assms unfolding True a_def by (simp add: two_pow_def field_simps)
    then have "m \<le> 2 ^ 53 - 1"
      unfolding m_def by (rule round_half_even_le)
    then have "(of_int m :: rat) \<le> of_int (2 ^ 53 - 1)"
      by (simp only: of_int_le_iff)
    then have "of_int m * two_pow e \<le> of_int (2 ^ 53 - 1) * two_pow e"
      using two_pow_pos [of e] by (intro mult_right_mono) simp_all
    also have "\<dots> < 2 ^ 1024"
      unfolding True by (simp add: two_pow_def)
    finally show ?thesis .
  next
    case False
    then have e970: "e \<le> 970" using il by (simp add: e_def)
    have "a / two_pow e < 2 ^ 53"
      using up two_pow_pos [of e] unfolding e53 by (simp add: field_simps)
    then have "a / two_pow e \<le> of_int (2 ^ 53)" by simp
    then have "m \<le> 2 ^ 53"
      unfolding m_def by (rule round_half_even_le)
    then have "(of_int m :: rat) \<le> of_int (2 ^ 53)"
      by (simp only: of_int_le_iff)
    then have "of_int m * two_pow e \<le> of_int (2 ^ 53) * two_pow e"
      using two_pow_pos [of e] by (intro mult_right_mono) simp_all
    also have "\<dots> = two_pow (e + 53)"
      by (simp add: e53)
    also have "\<dots> \<le> two_pow 1023"
      using e970 by (intro two_pow_mono) simp
    also have "\<dots> < 2 ^ 1024"
      by (simp add: two_pow_def)
    finally show ?thesis .
  qed
  then show ?thesis
    using rnd_nonzero [OF False] unfolding m_def e_def a_def by blast
qed

lemma rnd_small:
  assumes "\<bar>x\<bar> < 2"
  shows "\<exists>r. rnd x = Fin r \<and> \<bar>r - x\<bar> \<le> 1 / 2 ^ 53 \<and> (0 \<le> x \<longrightarrow> 0 \<le> r)"
  using rnd_err [of x 0] assms by (auto simp: two_pow_def)

lemma rnd_mid:
  assumes "\<bar>x\<bar> < 128"
  shows "\<exists>r. rnd x = Fin r \<and> \<bar>r - x\<bar> \<le> 1 / 2 ^ 47 \<and> (0 \<le> x \<longrightarrow> 0 \<le> r)"
  using rnd_err [of x 6] assms by (auto simp: two_pow_def)

subsection \<open>Each loop as a sum\<close>

lemma criteria_loop_foldl:
  "criteria_loop rs cs acc = foldl num_add acc (map (criterion_term rs) cs)"
  by (induction cs arbitrary: acc) (simp_all add: criterion_term_def)

lemma categories_loop_foldl:
  "categories_loop rs cats acc = foldl num_add acc (map (category_term rs) cats)"
  by (induction cats arbitrary: acc) (simp_all add: category_term_def criteria_loop_foldl)

lemma literal_doubles:
  "rnd (4 / 5) = Fin (3602879701896397 / 4503599627370496)"
  "rnd (3 / 5) = Fin (5404319552844595 / 9007199254740992)"
  "rnd (2 / 5) = Fin (3602879701896397 / 9007199254740992)"
  "rnd (1 / 5) = Fin (3602879701896397 / 18014398509481984)"
  "rnd (9 / 20) = Fin (8106479329266893 / 18014398509481984)"
  "rnd (7 / 20) = Fin (3152519739159347 / 9007199254740992)"
  "rnd (3 / 20) = Fin (5404319552844595 / 36028797018963968)"
  "rnd (3 / 10) = Fin (5404319552844595 / 18014398509481984)"
  by (simp_all add: rnd_eval)

lemma ratingToScore_range:
  "ratingToScore r = Fin (fin_val (ratingToScore r))
   \<and> 0 < fin_val (ratingToScore r) \<and> fin_val (ratingToScore r) \<le> 1"
  by (cases r) (simp_all add: literal_doubles fin_val_def)

subsection \<open>The error of an accumulated sum\<close>

lemma fsum_err:
  assumes "\<forall>q \<in> set qs. 0 \<le> q" and "0 \<le> a"
    and "a + sum_list qs + of_nat (length qs) * (1 / 2 ^ 53) < 2"
  shows "\<exists>r. foldl num_add (Fin a) (map Fin qs) = Fin r \<and> 0 \<le> r
           \<and> \<bar>r - (a + sum_list qs)\<bar> \<le> of_nat (length qs) * (1 / 2 ^ 53)"
  using assms
proof (induction qs arbitrary: a)
  case Nil
  then show ?case by simp
next
  case (Cons q qs)
  define u :: rat where "u = 1 / 2 ^ 53"
  define n :: rat where "n = of_nat (length qs)"
  have u: "0 < u" by (simp add: u_def)
  have n: "0 \<le> n" by (simp add: n_def)
  have nu: "0 \<le> n * u" using u n by simp
  have q: "0 \<le> q" and qs: "\<forall>q \<in> set qs. 0 \<le> q"
    using Cons.prems(1) by simp_all
  have s0: "0 \<le> sum_list qs"
    using qs by (simp add: sum_list_nonneg)
  have bound: "a + q + sum_list qs + (n * u + u) < 2"
    using Cons.prems(3) [folded u_def] by (simp add: n_def algebra_simps)
  have "\<bar>a + q\<bar> < 2"
    using bound Cons.prems(2) q s0 nu u by linarith
  from rnd_small [OF this] obtain r1 where
    r1: "rnd (a + q) = Fin r1" "\<bar>r1 - (a + q)\<bar> \<le> u" "0 \<le> r1"
    using Cons.prems(2) q unfolding u_def by auto
  have "r1 + sum_list qs + n * u < 2"
    using bound r1(2) by linarith
  then have "r1 + sum_list qs + of_nat (length qs) * (1 / 2 ^ 53) < 2"
    unfolding u_def n_def .
  from Cons.IH [OF qs r1(3) this] obtain r where
    r: "foldl num_add (Fin r1) (map Fin qs) = Fin r" "0 \<le> r"
       "\<bar>r - (r1 + sum_list qs)\<bar> \<le> n * u"
    unfolding u_def n_def by blast
  have "\<bar>r - (a + (q + sum_list qs))\<bar> \<le> n * u + u"
    using r(3) r1(2) by linarith
  then have "\<bar>r - (a + sum_list (q # qs))\<bar> \<le> of_nat (length (q # qs)) * u"
    by (simp add: n_def algebra_simps)
  then have "\<bar>r - (a + sum_list (q # qs))\<bar> \<le> of_nat (length (q # qs)) * (1 / 2 ^ 53)"
    unfolding u_def .
  then show ?case
    using r(1,2) r1(1) by simp
qed

lemma sum_list_abs_diff:
  fixes f g :: "'a \<Rightarrow> rat"
  assumes "\<forall>x \<in> set xs. \<bar>f x - g x\<bar> \<le> d"
  shows "\<bar>sum_list (map f xs) - sum_list (map g xs)\<bar> \<le> of_nat (length xs) * d"
  using assms
proof (induction xs)
  case Nil
  then show ?case by simp
next
  case (Cons x xs)
  then have "\<bar>f x - g x\<bar> \<le> d"
    and "\<bar>sum_list (map f xs) - sum_list (map g xs)\<bar> \<le> of_nat (length xs) * d"
    by simp_all
  then show ?case by (simp add: algebra_simps)
qed

lemma map_Fin_fin_val:
  assumes "\<forall>x \<in> set xs. \<exists>q. f x = Fin q"
  shows "map f xs = map Fin (map (\<lambda>x. fin_val (f x)) xs)"
  using assms by (induction xs) (auto simp: fin_val_def)

lemma clamp01_Fin: "clamp01 (Fin r) = Fin (max 0 (min 1 r))"
  by (simp add: clamp01_def num_min_def num_max_def max_def min_def)

lemma clamp01_range:
  assumes "v \<noteq> NaN"
  shows "clamp01 v = Fin (fin_val (clamp01 v))
       \<and> 0 \<le> fin_val (clamp01 v) \<and> fin_val (clamp01 v) \<le> 1"
  using assms by (cases v) (auto simp: clamp01_def num_min_def num_max_def fin_val_def)

lemma clamp_lipschitz:
  fixes r e :: rat
  shows "\<bar>max 0 (min 1 r) - max 0 (min 1 e)\<bar> \<le> \<bar>r - e\<bar>"
  by (auto simp: max_def min_def)

lemma elem_le_sum_list:
  fixes xs :: "rat list"
  assumes "\<forall>y \<in> set xs. 0 \<le> y" and "x \<in> set xs"
  shows "x \<le> sum_list xs"
  using assms
proof (induction xs)
  case Nil
  then show ?case by simp
next
  case (Cons y ys)
  have "0 \<le> sum_list ys" using Cons.prems(1) by (simp add: sum_list_nonneg)
  then show ?case using Cons by auto
qed

lemma operand_range:
  assumes "v \<noteq> Inherited"
  shows "ratingToScore_operand v = Fin (fin_val (ratingToScore_operand v))
       \<and> 0 < fin_val (ratingToScore_operand v) \<and> fin_val (ratingToScore_operand v) \<le> 1"
  using assms ratingToScore_range by (cases v) simp_all

lemma count_bound:
  assumes "n \<le> 2 ^ 20"
  shows "(of_nat n :: rat) * (1 / 2 ^ 53) \<le> 1 / 2 ^ 33"
proof -
  have "(of_nat n :: rat) \<le> of_nat (2 ^ 20)"
    using assms by (simp only: of_nat_le_iff)
  then have "(of_nat n :: rat) \<le> 2 ^ 20" by simp
  then have "(of_nat n :: rat) * (1 / 2 ^ 53) \<le> 2 ^ 20 * (1 / 2 ^ 53)"
    by (intro mult_right_mono) simp_all
  then show ?thesis by simp
qed

lemma count_bound_array:
  assumes "n < 2 ^ 32"
  shows "(of_nat n :: rat) * (1 / 2 ^ 53) \<le> 1 / 2 ^ 21"
proof -
  from assms have "n \<le> 2 ^ 32" by simp
  then have "(of_nat n :: rat) \<le> of_nat (2 ^ 32)"
    by (simp only: of_nat_le_iff)
  then have "(of_nat n :: rat) \<le> 2 ^ 32" by simp
  then have "(of_nat n :: rat) * (1 / 2 ^ 53) \<le> 2 ^ 32 * (1 / 2 ^ 53)"
    by (intro mult_right_mono) simp_all
  then show ?thesis by simp
qed

lemma weights_ok_upto:
  assumes "weights_ok ws"
  shows "weights_upto (1 / 2 ^ 33) ws"
proof -
  have "length ws \<le> 2 ^ 20" using assms by (simp add: weights_ok_def)
  then have "(of_nat (length ws) :: rat) * (1 / 2 ^ 53) \<le> 1 / 2 ^ 33" by (rule count_bound)
  then show ?thesis using assms unfolding weights_ok_def weights_upto_def by blast
qed

lemma array_weights_upto:
  assumes "array_weights ws"
  shows "weights_upto (1 / 2 ^ 21) ws"
proof -
  have "length ws < 2 ^ 32" using assms by (simp add: array_weights_def)
  then have "(of_nat (length ws) :: rat) * (1 / 2 ^ 53) \<le> 1 / 2 ^ 21" by (rule count_bound_array)
  then show ?thesis using assms unfolding array_weights_def weights_upto_def by blast
qed

lemma weights_uptoD:
  assumes "weights_upto b (map wt xs)"
  shows "\<forall>x \<in> set xs. wt x = Fin (fin_val (wt x)) \<and> 0 \<le> fin_val (wt x) \<and> fin_val (wt x) < 2"
    and "of_nat (length xs) * (1 / 2 ^ 53) \<le> b"
    and "sum_list (map (\<lambda>x. fin_val (wt x)) xs) \<le> 1 + 1 / 10 ^ 6"
proof -
  have all: "list_all nonneg_fin (map wt xs)"
    and len: "of_nat (length (map wt xs)) * (1 / 2 ^ 53) \<le> b"
    and sum: "sum_list (map fin_val (map wt xs)) \<le> 1 + 1 / 10 ^ 6"
    using assms unfolding weights_upto_def by blast+
  have all': "\<forall>x \<in> set xs. nonneg_fin (wt x)"
    using all by (simp add: list_all_iff)
  have sum': "sum_list (map (\<lambda>x. fin_val (wt x)) xs) \<le> 1 + 1 / 10 ^ 6"
    using sum by (simp add: comp_def)
  have fin: "wt x = Fin (fin_val (wt x)) \<and> 0 \<le> fin_val (wt x)" if "x \<in> set xs" for x
    using all' that by (cases "wt x") (auto simp: nonneg_fin_def fin_val_def)
  have "fin_val (wt x) < 2" if "x \<in> set xs" for x
  proof -
    have "fin_val (wt x) \<le> sum_list (map (\<lambda>x. fin_val (wt x)) xs)"
      using fin that by (intro elem_le_sum_list) auto
    then show ?thesis using sum' by simp
  qed
  then show "\<forall>x \<in> set xs. wt x = Fin (fin_val (wt x)) \<and> 0 \<le> fin_val (wt x) \<and> fin_val (wt x) < 2"
    using fin by blast
  show "of_nat (length xs) * (1 / 2 ^ 53) \<le> b" using len by simp
  show "sum_list (map (\<lambda>x. fin_val (wt x)) xs) \<le> 1 + 1 / 10 ^ 6" by (rule sum')
qed

lemma weighted_fsum_err:
  fixes s :: "'a \<Rightarrow> rat" and wt :: "'a \<Rightarrow> number" and trm :: "'a \<Rightarrow> number"
  assumes ok: "weights_upto b (map wt xs)" and b21: "b \<le> 1 / 2 ^ 21"
    and s: "\<forall>x \<in> set xs. 0 \<le> s x \<and> s x \<le> 1"
    and trm: "\<forall>x \<in> set xs. trm x = rnd (s x * fin_val (wt x))"
  shows "\<exists>r. foldl num_add (Fin 0) (map trm xs) = Fin r \<and> 0 \<le> r
           \<and> \<bar>r - sum_list (map (\<lambda>x. s x * fin_val (wt x)) xs)\<bar> \<le> 2 * b"
proof -
  define u :: rat where "u = 1 / 2 ^ 53"
  define n :: rat where "n = of_nat (length xs)"
  define ex where "ex = (\<lambda>x. s x * fin_val (wt x))"
  define fl where "fl = (\<lambda>x. fin_val (trm x))"
  note w = weights_uptoD [OF ok]
  have nub: "n * u \<le> b"
    unfolding n_def u_def by (rule w(2))
  have nu: "n * u \<le> 1 / 2097152"
    using nub b21 by simp
  have each: "trm x = Fin (fl x) \<and> 0 \<le> fl x \<and> \<bar>fl x - ex x\<bar> \<le> u" if "x \<in> set xs" for x
  proof -
    have w0: "0 \<le> fin_val (wt x)" and w2: "fin_val (wt x) < 2"
      using w(1) that by simp_all
    have s0: "0 \<le> s x" and s1: "s x \<le> 1" using s that by simp_all
    have "s x * fin_val (wt x) \<le> 1 * fin_val (wt x)"
      using s1 w0 by (intro mult_right_mono) simp_all
    then have "\<bar>ex x\<bar> < 2"
      using w2 s0 w0 by (simp add: ex_def)
    from rnd_small [OF this] obtain r where
      "rnd (ex x) = Fin r" "\<bar>r - ex x\<bar> \<le> u" "0 \<le> r"
      using s0 w0 unfolding u_def by (auto simp: ex_def)
    then show ?thesis
      using trm that by (simp add: fl_def ex_def fin_val_def)
  qed
  have map_eq: "map trm xs = map Fin (map fl xs)"
    unfolding fl_def using each by (intro map_Fin_fin_val) blast
  have nonneg: "\<forall>q \<in> set (map fl xs). 0 \<le> q"
    using each by auto
  have diff: "\<bar>sum_list (map fl xs) - sum_list (map ex xs)\<bar> \<le> n * u"
    unfolding n_def using each by (intro sum_list_abs_diff) blast
  have "sum_list (map ex xs) \<le> sum_list (map (\<lambda>x. fin_val (wt x)) xs)"
  proof (rule sum_list_mono)
    fix x assume x: "x \<in> set xs"
    have "s x * fin_val (wt x) \<le> 1 * fin_val (wt x)"
      using s w(1) x by (intro mult_right_mono) simp_all
    then show "ex x \<le> fin_val (wt x)" by (simp add: ex_def)
  qed
  then have ex_le: "sum_list (map ex xs) \<le> 1 + 1 / 1000000"
    using w(3) by simp
  have "0 + sum_list (map fl xs) + n * u < 2"
    using diff ex_le nu by linarith
  then have pre: "0 + sum_list (map fl xs) + of_nat (length (map fl xs)) * (1 / 2 ^ 53) < 2"
    by (simp add: n_def u_def)
  from fsum_err [OF nonneg _ pre] obtain r where
    r: "foldl num_add (Fin 0) (map Fin (map fl xs)) = Fin r" "0 \<le> r"
       "\<bar>r - (0 + sum_list (map fl xs))\<bar> \<le> of_nat (length (map fl xs)) * (1 / 2 ^ 53)"
    by auto
  have "\<bar>r - sum_list (map fl xs)\<bar> \<le> n * u"
    using r(3) by (simp add: n_def u_def)
  then have "\<bar>r - sum_list (map ex xs)\<bar> \<le> 2 * b"
    using diff nub by linarith
  moreover have "foldl num_add (Fin 0) (map trm xs) = Fin r"
    using r(1) by (simp only: map_eq)
  ultimately show ?thesis
    using r(2) unfolding ex_def by blast
qed

subsection \<open>Subtotals and total against the exact formula\<close>

lemma num_mul_Fin:
  assumes "a = Fin x" and "b = Fin y"
  shows "num_mul a b = rnd (x * y)"
  using assms by simp

lemma subtotal_err:
  assumes ok: "weights_upto b (map rc_weight (criteria cat))" and b21: "b \<le> 1 / 2 ^ 21"
    and free: "\<forall>c \<in> set (criteria cat). rating_of rs (rc_id c) \<noteq> Inherited"
  shows "\<exists>r. criteria_loop rs (criteria cat) (Fin 0) = Fin r \<and> 0 \<le> r
           \<and> \<bar>r - exact_subtotal rs cat\<bar> \<le> 2 * b"
proof -
  note w = weights_uptoD [OF ok]
  have s: "\<forall>c \<in> set (criteria cat).
      0 \<le> fin_val (ratingToScore_operand (rating_of rs (rc_id c)))
      \<and> fin_val (ratingToScore_operand (rating_of rs (rc_id c))) \<le> 1"
    using free operand_range by (simp add: less_imp_le)
  have t: "\<forall>c \<in> set (criteria cat). criterion_term rs c
      = rnd (fin_val (ratingToScore_operand (rating_of rs (rc_id c))) * fin_val (rc_weight c))"
  proof
    fix c assume c: "c \<in> set (criteria cat)"
    then have b: "rc_weight c = Fin (fin_val (rc_weight c))" using w(1) by simp
    have a: "ratingToScore_operand (rating_of rs (rc_id c))
        = Fin (fin_val (ratingToScore_operand (rating_of rs (rc_id c))))"
      using free c operand_range by simp
    show "criterion_term rs c
      = rnd (fin_val (ratingToScore_operand (rating_of rs (rc_id c))) * fin_val (rc_weight c))"
      unfolding criterion_term_def by (rule num_mul_Fin [OF a b])
  qed
  have et: "exact_term rs
      = (\<lambda>c. fin_val (ratingToScore_operand (rating_of rs (rc_id c))) * fin_val (rc_weight c))"
    by (simp add: fun_eq_iff exact_term_def)
  from weighted_fsum_err [OF ok b21 s t] show ?thesis
    unfolding criteria_loop_foldl exact_subtotal_def et .
qed

lemma total_err_clamped:
  assumes ok: "weights_upto b (map cat_weight cats)" and b21: "b \<le> 1 / 2 ^ 21"
    and nn: "\<forall>cat \<in> set cats. criteria_loop rs (criteria cat) (Fin 0) \<noteq> NaN"
  shows "\<exists>t. categories_loop rs cats (Fin 0) = Fin t \<and> 0 \<le> t
           \<and> \<bar>t - sum_list (map (\<lambda>cat. clamped_subtotal rs cat * fin_val (cat_weight cat)) cats)\<bar>
               \<le> 2 * b"
proof -
  note w = weights_uptoD [OF ok]
  have s: "\<forall>cat \<in> set cats. 0 \<le> clamped_subtotal rs cat \<and> clamped_subtotal rs cat \<le> 1"
    using nn clamp01_range by (simp add: clamped_subtotal_def)
  have t: "\<forall>cat \<in> set cats. category_term rs cat
      = rnd (clamped_subtotal rs cat * fin_val (cat_weight cat))"
  proof
    fix cat assume c: "cat \<in> set cats"
    then have b: "cat_weight cat = Fin (fin_val (cat_weight cat))" using w(1) by simp
    have a: "clamp01 (criteria_loop rs (criteria cat) (Fin 0)) = Fin (clamped_subtotal rs cat)"
      using nn c clamp01_range by (simp add: clamped_subtotal_def)
    show "category_term rs cat
      = rnd (clamped_subtotal rs cat * fin_val (cat_weight cat))"
      unfolding category_term_def criteria_loop_foldl [symmetric] by (rule num_mul_Fin [OF a b])
  qed
  from weighted_fsum_err [OF ok b21 s t] show ?thesis
    by (simp add: categories_loop_foldl)
qed

lemma rnd_not_NaN: "rnd x \<noteq> NaN"
  by (simp add: rnd_def Let_def)

lemma num_add_Fin_not_NaN:
  assumes "acc \<noteq> NaN"
  shows "num_add acc (Fin q) \<noteq> NaN"
  using assms by (cases acc) (simp_all add: rnd_not_NaN)

lemma criterion_term_finite:
  assumes "finite_weight (rc_weight c)" and "rating_of rs (rc_id c) \<noteq> Inherited"
  shows "\<exists>q. criterion_term rs c = Fin q"
proof -
  obtain w where w: "rc_weight c = Fin w" "\<bar>w\<bar> \<le> (2 ^ 53 - 1) * 2 ^ 971"
    using assms(1) by (cases "rc_weight c") (simp_all add: finite_weight_def)
  define s where "s = fin_val (ratingToScore_operand (rating_of rs (rc_id c)))"
  have s: "ratingToScore_operand (rating_of rs (rc_id c)) = Fin s" "0 < s" "s \<le> 1"
    using operand_range [OF assms(2)] by (simp_all add: s_def)
  have "\<bar>s * w\<bar> = s * \<bar>w\<bar>"
    using s(2) by (simp add: abs_mult)
  also have "\<dots> \<le> 1 * \<bar>w\<bar>"
    using s(3) by (intro mult_right_mono) simp_all
  finally have "\<bar>s * w\<bar> \<le> (2 ^ 53 - 1) * 2 ^ 971"
    using w(2) by simp
  from rnd_finite [OF this] show ?thesis
    by (simp add: criterion_term_def s(1) w(1))
qed

lemma criteria_loop_not_NaN:
  assumes "\<forall>c \<in> set cs. finite_weight (rc_weight c) \<and> rating_of rs (rc_id c) \<noteq> Inherited"
    and "acc \<noteq> NaN"
  shows "criteria_loop rs cs acc \<noteq> NaN"
  using assms
proof (induction cs arbitrary: acc)
  case Nil
  then show ?case by simp
next
  case (Cons c cs)
  from Cons.prems(1) obtain q where q: "criterion_term rs c = Fin q"
    using criterion_term_finite [of c rs] by auto
  have "num_add acc (criterion_term rs c) \<noteq> NaN"
    unfolding q using Cons.prems(2) by (rule num_add_Fin_not_NaN)
  then show ?case
    using Cons.IH [of "num_add acc (criterion_term rs c)"] Cons.prems(1)
    by (simp add: criterion_term_def)
qed

lemma weighted_sum_diff:
  fixes f g w :: "'a \<Rightarrow> rat"
  assumes "\<forall>x \<in> set xs. \<bar>f x - g x\<bar> \<le> d \<and> 0 \<le> w x"
  shows "\<bar>sum_list (map (\<lambda>x. f x * w x) xs) - sum_list (map (\<lambda>x. g x * w x) xs)\<bar>
           \<le> d * sum_list (map w xs)"
  using assms
proof (induction xs)
  case Nil
  then show ?case by simp
next
  case (Cons x xs)
  have "\<bar>f x * w x - g x * w x\<bar> = \<bar>f x - g x\<bar> * w x"
    using Cons.prems by (simp add: abs_mult flip: left_diff_distrib)
  also have "\<dots> \<le> d * w x"
    using Cons.prems by (intro mult_right_mono) simp_all
  finally have "\<bar>f x * w x - g x * w x\<bar> \<le> d * w x" .
  moreover have "\<bar>sum_list (map (\<lambda>x. f x * w x) xs) - sum_list (map (\<lambda>x. g x * w x) xs)\<bar>
           \<le> d * sum_list (map w xs)"
    using Cons by simp
  ultimately show ?case by (simp add: algebra_simps)
qed

lemma total_err_upto:
  assumes ok: "weights_upto b1 (map cat_weight cats)" and b1: "b1 \<le> 1 / 2 ^ 21"
    and oks: "\<forall>cat \<in> set cats. weights_upto b2 (map rc_weight (criteria cat))"
    and b2: "b2 \<le> 1 / 2 ^ 21" and b20: "0 \<le> b2"
    and free: "inherited_free rs cats"
  shows "\<exists>t. categories_loop rs cats (Fin 0) = Fin t \<and> 0 \<le> t
           \<and> \<bar>t - exact_total rs cats\<bar> \<le> 2 * b1 + 2 * b2 * (1 + 1 / 10 ^ 6)
           \<and> exact_total rs cats \<le> 1 + 1 / 10 ^ 6"
proof -
  define d :: rat where "d = 2 * b2"
  define W where "W = sum_list (map (\<lambda>cat. fin_val (cat_weight cat)) cats)"
  define E where "E = exact_total rs cats"
  define F where "F = sum_list (map (\<lambda>cat. clamped_subtotal rs cat * fin_val (cat_weight cat)) cats)"
  define k :: rat where "k = 1 + 1 / 10 ^ 6"
  have d0: "0 \<le> d" using b20 by (simp add: d_def)
  have fr: "\<forall>c \<in> set (criteria cat). rating_of rs (rc_id c) \<noteq> Inherited" if "cat \<in> set cats" for cat
    using free that by (simp add: inherited_free_def list_all_iff)
  note w = weights_uptoD [OF ok]
  have sub: "criteria_loop rs (criteria cat) (Fin 0) \<noteq> NaN
      \<and> \<bar>clamped_subtotal rs cat - max 0 (min 1 (exact_subtotal rs cat))\<bar> \<le> d"
    if "cat \<in> set cats" for cat
  proof -
    have "weights_upto b2 (map rc_weight (criteria cat))" using oks that by simp
    from subtotal_err [OF this b2 fr [OF that]] obtain r where
      r: "criteria_loop rs (criteria cat) (Fin 0) = Fin r" "\<bar>r - exact_subtotal rs cat\<bar> \<le> d"
      unfolding d_def by blast
    have "clamped_subtotal rs cat = max 0 (min 1 r)"
      by (simp add: clamped_subtotal_def r(1) clamp01_Fin fin_val_def)
    then show ?thesis
      using r clamp_lipschitz [of r "exact_subtotal rs cat"] by simp
  qed
  from total_err_clamped [OF ok b1, of rs] sub obtain t where
    t: "categories_loop rs cats (Fin 0) = Fin t" "0 \<le> t" "\<bar>t - F\<bar> \<le> 2 * b1"
    unfolding F_def by blast
  have "\<bar>F - E\<bar> \<le> d * W"
    unfolding F_def E_def exact_total_def W_def
    using sub w(1) by (intro weighted_sum_diff) simp
  moreover have W: "W \<le> k"
    using w(3) by (simp add: W_def k_def)
  moreover have "d * W \<le> d * k"
    using W d0 by (rule mult_left_mono)
  ultimately have "\<bar>t - E\<bar> \<le> 2 * b1 + d * k"
    using t(3) by linarith
  then have err: "\<bar>t - E\<bar> \<le> 2 * b1 + 2 * b2 * (1 + 1 / 10 ^ 6)"
    unfolding d_def k_def .
  have "E \<le> W"
    unfolding E_def exact_total_def W_def
  proof (rule sum_list_mono)
    fix cat assume "cat \<in> set cats"
    then have "0 \<le> fin_val (cat_weight cat)" using w(1) by simp
    then have "max 0 (min 1 (exact_subtotal rs cat)) * fin_val (cat_weight cat)
        \<le> 1 * fin_val (cat_weight cat)"
      by (intro mult_right_mono) simp_all
    then show "max 0 (min 1 (exact_subtotal rs cat)) * fin_val (cat_weight cat)
        \<le> fin_val (cat_weight cat)" by simp
  qed
  then have "E \<le> 1 + 1 / 10 ^ 6" using W unfolding k_def by linarith
  then show ?thesis
    using t(1,2) err unfolding E_def by blast
qed

lemma total_err:
  assumes "nominal cats" and "inherited_free rs cats"
  shows "\<exists>t. categories_loop rs cats (Fin 0) = Fin t \<and> 0 \<le> t
           \<and> \<bar>t - exact_total rs cats\<bar> \<le> 1 / 2 ^ 30
           \<and> exact_total rs cats \<le> 1 + 1 / 10 ^ 6"
proof -
  have ok: "weights_upto (1 / 2 ^ 33) (map cat_weight cats)"
    and oks: "\<forall>cat \<in> set cats. weights_upto (1 / 2 ^ 33) (map rc_weight (criteria cat))"
    using assms(1) unfolding nominal_def list_all_iff by (blast intro: weights_ok_upto)+
  have b: "(1 / 2 ^ 33 :: rat) \<le> 1 / 2 ^ 21" "(0 :: rat) \<le> 1 / 2 ^ 33"
    by simp_all
  from total_err_upto [OF ok b(1) oks b(1) b(2) assms(2)] obtain t where
    t: "categories_loop rs cats (Fin 0) = Fin t" "0 \<le> t"
       "\<bar>t - exact_total rs cats\<bar> \<le> 2 * (1 / 2 ^ 33) + 2 * (1 / 2 ^ 33) * (1 + 1 / 10 ^ 6)"
       "exact_total rs cats \<le> 1 + 1 / 10 ^ 6"
    by blast
  have "(2 * (1 / 2 ^ 33) + 2 * (1 / 2 ^ 33) * (1 + 1 / 10 ^ 6) :: rat) \<le> 1 / 2 ^ 30"
    by simp
  with t(3) have "\<bar>t - exact_total rs cats\<bar> \<le> 1 / 2 ^ 30"
    by (rule order_trans)
  then show ?thesis using t(1,2,4) by blast
qed

subsection \<open>The final rounding to one decimal\<close>

lemma abs_le_D:
  fixes a b :: rat
  assumes "\<bar>a - b\<bar> \<le> d" and "d \<le> d'"
  shows "a \<le> b + d' \<and> b - d' \<le> a"
  using assms by linarith

lemma score_of_total:
  assumes "categories_loop rs (categories cfg) (Fin 0) = Fin t" and "0 \<le> t" and "t \<le> 5 / 4"
  shows "\<exists>x. 0 \<le> x \<and> \<bar>x - 100 * t\<bar> \<le> 1 / 2 ^ 47
           \<and> overallScore cfg rs = rnd (of_int \<lfloor>x * 10 + 1 / 2\<rfloor> / 10)"
proof -
  have "\<bar>t * 100\<bar> < 128" using assms(2,3) by simp
  from rnd_mid [OF this] obtain x where
    x: "rnd (t * 100) = Fin x" "\<bar>x - t * 100\<bar> \<le> 1 / 2 ^ 47" "0 \<le> x"
    using assms(2) by auto
  have "x \<le> t * 100 + 1" using abs_le_D [OF x(2), of 1] by simp
  then have small: "\<not> 10 ^ 21 \<le> \<bar>x\<bar>" using assms(3) x(3) by simp
  have "overallScore cfg rs = toFixed1 (Fin x)"
    by (simp add: overallScore_def assms(1) x(1))
  also have "\<dots> = rnd (of_int \<lfloor>x * 10 + 1 / 2\<rfloor> / 10)"
    using small x(3) by (simp add: toFixed1_def Let_def)
  finally show ?thesis
    using x(2,3) by (auto simp: mult.commute)
qed

lemma rnd_100: "rnd 100 = Fin 100" and rnd_60: "rnd 60 = Fin 60" and rnd_1: "rnd 1 = Fin 1"
  by (simp_all add: rnd_eval)

lemma rnd_tenths_le_100:
  assumes "0 \<le> n" and "n \<le> 1000"
  shows "\<exists>s. rnd (of_int n / 10) = Fin s \<and> 0 \<le> s \<and> s \<le> 100"
proof (cases "n = 1000")
  case True
  then show ?thesis by (simp add: rnd_100)
next
  case False
  then have "n \<le> 999" using assms(2) by simp
  then have "(of_int n :: rat) \<le> of_int 999" by (simp only: of_int_le_iff)
  then have le: "(of_int n :: rat) / 10 \<le> 999 / 10" by simp
  have ge: "0 \<le> (of_int n :: rat) / 10" using assms(1) by simp
  have "\<bar>(of_int n :: rat) / 10\<bar> < 128" using le ge by simp
  from rnd_mid [OF this] obtain s where
    s: "rnd (of_int n / 10) = Fin s" "\<bar>s - of_int n / 10\<bar> \<le> 1 / 2 ^ 47" "0 \<le> s"
    using ge by auto
  have "s \<le> of_int n / 10 + 1 / 10" using abs_le_D [OF s(2), of "1 / 10"] by simp
  then have "s \<le> 100" using le by simp
  then show ?thesis using s(1,3) by blast
qed

lemma score_exact:
  assumes nom: "nominal (categories cfg)"
    and free: "inherited_free rs (categories cfg)"
    and clear: "clear_of_ties (exact_total rs (categories cfg))"
  shows "overallScore cfg rs = rnd (of_int \<lfloor>1000 * exact_total rs (categories cfg) + 1 / 2\<rfloor> / 10)"
proof -
  define E where "E = exact_total rs (categories cfg)"
  define y where "y = 1000 * E + 1 / 2"
  from total_err [OF nom free] obtain t where
    t: "categories_loop rs (categories cfg) (Fin 0) = Fin t" "0 \<le> t"
       "\<bar>t - E\<bar> \<le> 1 / 2 ^ 30" "E \<le> 1 + 1 / 10 ^ 6"
    unfolding E_def by blast
  have tE: "t \<le> E + 94 / 100000000000" "E - 94 / 100000000000 \<le> t"
    using abs_le_D [OF t(3), of "94 / 100000000000"] by simp_all
  have t54: "t \<le> 5 / 4" using tE(1) t(4) by simp
  from score_of_total [OF t(1,2) t54] obtain x where
    x: "\<bar>x - 100 * t\<bar> \<le> 1 / 2 ^ 47"
       "overallScore cfg rs = rnd (of_int \<lfloor>x * 10 + 1 / 2\<rfloor> / 10)"
    by blast
  define z where "z = x * 10 + 1 / 2"
  have xt: "x \<le> 100 * t + 1 / 1000000000" "100 * t - 1 / 1000000000 \<le> x"
    using abs_le_D [OF x(1), of "1 / 1000000000"] by simp_all
  have "\<bar>z - y\<bar> < 1 / 1000000"
    using xt tE unfolding z_def y_def by linarith
  then have close: "\<bar>z - y\<bar> < 1 / 10 ^ 6"
    by simp
  have lo: "of_int \<lfloor>y\<rfloor> + 1 / 10 ^ 6 \<le> y" and hi: "y \<le> of_int \<lfloor>y\<rfloor> + 1 - 1 / 10 ^ 6"
    using clear unfolding clear_of_ties_def Let_def E_def [symmetric] y_def [symmetric]
    by simp_all
  have "\<lfloor>z\<rfloor> = \<lfloor>y\<rfloor>"
  proof (rule floor_unique)
    show "of_int \<lfloor>y\<rfloor> \<le> z" using close lo by linarith
    show "z < of_int \<lfloor>y\<rfloor> + 1" using close hi by linarith
  qed
  then show ?thesis
    using x(2) unfolding z_def y_def E_def by simp
qed

subsection \<open>A criterion that reads an inherited member\<close>

lemma num_add_NaN_right: "num_add a NaN = NaN"
  by (cases a) simp_all

lemma foldl_num_add_NaN: "foldl num_add NaN xs = NaN"
  by (induction xs) simp_all

lemma foldl_num_add_mem_NaN:
  assumes "NaN \<in> set xs"
  shows "foldl num_add a xs = NaN"
  using assms
proof (induction xs arbitrary: a)
  case Nil
  then show ?case by simp
next
  case (Cons x xs)
  show ?case
  proof (cases "x = NaN")
    case True
    then show ?thesis by (simp add: num_add_NaN_right foldl_num_add_NaN)
  next
    case False
    then have "NaN \<in> set xs" using Cons.prems by auto
    then show ?thesis using Cons.IH by simp
  qed
qed

lemma clamp01_NaN: "clamp01 NaN = NaN"
  by (simp add: clamp01_def num_min_def num_max_def)

lemma category_term_inherited:
  assumes "c \<in> set (criteria cat)" and "rating_of rs (rc_id c) = Inherited"
  shows "category_term rs cat = NaN"
proof -
  have "criterion_term rs c = NaN"
    by (simp add: criterion_term_def assms(2))
  then have "NaN \<in> set (map (criterion_term rs) (criteria cat))"
    using assms(1) by force
  then have "foldl num_add (Fin 0) (map (criterion_term rs) (criteria cat)) = NaN"
    by (rule foldl_num_add_mem_NaN)
  then show ?thesis
    by (simp add: category_term_def clamp01_NaN)
qed

lemma overallScore_inherited:
  assumes "\<not> inherited_free rs (categories cfg)"
  shows "overallScore cfg rs = NaN"
proof -
  from assms obtain cat c where
    c: "cat \<in> set (categories cfg)" "c \<in> set (criteria cat)" "rating_of rs (rc_id c) = Inherited"
    by (auto simp: inherited_free_def list_all_iff)
  have "category_term rs cat = NaN"
    using c(2,3) by (rule category_term_inherited)
  then have "NaN \<in> set (map (category_term rs) (categories cfg))"
    using c(1) by force
  then have "categories_loop rs (categories cfg) (Fin 0) = NaN"
    unfolding categories_loop_foldl by (rule foldl_num_add_mem_NaN)
  then show ?thesis
    by (simp add: overallScore_def toFixed1_def)
qed

subsection \<open>Reordering\<close>

lemma exact_subtotal_mset:
  "exact_subtotal rs cat = sum_mset (image_mset (exact_term rs) (mset (criteria cat)))"
  by (simp add: exact_subtotal_def flip: sum_mset_sum_list)

lemma exact_total_reordered:
  assumes "reordered cats cats'"
  shows "exact_total rs cats = exact_total rs cats'"
proof -
  define G :: "string \<times> number \<times> RubricCriterion multiset \<Rightarrow> rat" where
    "G = (\<lambda>(i, w, m). max 0 (min 1 (sum_mset (image_mset (exact_term rs) m))) * fin_val w)"
  have eq: "exact_total rs cs = sum_mset (image_mset G (mset (map cat_sig cs)))" for cs
  proof -
    have "(\<lambda>cat. max 0 (min 1 (exact_subtotal rs cat)) * fin_val (cat_weight cat)) = G \<circ> cat_sig"
      by (simp add: fun_eq_iff G_def cat_sig_def exact_subtotal_mset)
    then have "exact_total rs cs = sum_list (map (G \<circ> cat_sig) cs)"
      by (simp add: exact_total_def)
    also have "\<dots> = sum_mset (mset (map (G \<circ> cat_sig) cs))"
      by (simp only: sum_mset_sum_list)
    finally show ?thesis by (simp add: multiset.map_comp)
  qed
  show ?thesis
    using assms by (simp add: eq reordered_def)
qed

lemma inherited_free_reordered:
  assumes "reordered cats cats'"
  shows "inherited_free rs cats = inherited_free rs cats'"
proof -
  have eq: "inherited_free rs cs \<longleftrightarrow>
      (\<forall>sg \<in> set_mset (mset (map cat_sig cs)).
         \<forall>c \<in> set_mset (snd (snd sg)). rating_of rs (rc_id c) \<noteq> Inherited)" for cs
    by (simp add: inherited_free_def list_all_iff cat_sig_def)
  show ?thesis
    using assms by (simp only: eq reordered_def)
qed

subsection \<open>Formula, range and order\<close>

lemma ratingToScore_spec: "ratingToScore r = spec_rating_score r"
  by (cases r) (simp_all add: spec_rating_score_def rnd_1)

lemma clamp01_spec: "clamp01 v = spec_clamp v"
  by (cases v) (auto simp: clamp01_def num_min_def num_max_def spec_clamp_def)

lemma toFixed1_spec: "toFixed1 v = spec_round1 v"
  by (cases v) (auto simp: toFixed1_def spec_round1_def round_def Let_def)

lemma rating_of_spec:
  assumes "rating_of rs k \<noteq> Inherited"
  shows "rating_of rs k = Label (spec_rating rs k)"
  using assms by (auto simp: rating_of_def spec_rating_def split: option.splits if_splits)

lemma overallScore_spec:
  assumes "inherited_free rs (categories cfg)"
  shows "overallScore cfg rs = spec_score cfg rs"
proof -
  have fr: "rating_of rs (rc_id c) \<noteq> Inherited"
    if "cat \<in> set (categories cfg)" "c \<in> set (criteria cat)" for cat c
    using assms that by (simp add: inherited_free_def list_all_iff)
  have a: "map (criterion_term rs) (criteria cat)
      = map (\<lambda>c. num_mul (spec_rating_score (spec_rating rs (rc_id c))) (rc_weight c)) (criteria cat)"
    if "cat \<in> set (categories cfg)" for cat
  proof (rule map_cong [OF refl])
    fix c assume "c \<in> set (criteria cat)"
    from rating_of_spec [OF fr [OF that this]]
    show "criterion_term rs c = num_mul (spec_rating_score (spec_rating rs (rc_id c))) (rc_weight c)"
      by (simp add: criterion_term_def ratingToScore_spec)
  qed
  have b: "map (category_term rs) (categories cfg)
      = map (\<lambda>cat. num_mul (spec_clamp (spec_subtotal rs cat)) (cat_weight cat)) (categories cfg)"
  proof (rule map_cong [OF refl])
    fix cat assume "cat \<in> set (categories cfg)"
    then show "category_term rs cat = num_mul (spec_clamp (spec_subtotal rs cat)) (cat_weight cat)"
      by (simp add: category_term_def spec_subtotal_def a clamp01_spec)
  qed
  show ?thesis
    by (simp add: overallScore_def spec_score_def categories_loop_foldl b toFixed1_spec)
qed

lemma score_bounded:
  assumes ok: "array_weights (map cat_weight (categories cfg))"
    and fin: "finite_criteria (categories cfg)"
    and free: "inherited_free rs (categories cfg)"
  shows "\<exists>s. overallScore cfg rs = Fin s \<and> 0 \<le> s \<and> s \<le> 100"
proof -
  define cats where "cats = categories cfg"
  define F where "F = sum_list (map (\<lambda>cat. clamped_subtotal rs cat * fin_val (cat_weight cat)) cats)"
  have up: "weights_upto (1 / 2 ^ 21) (map cat_weight cats)"
    unfolding cats_def using ok by (rule array_weights_upto)
  note w = weights_uptoD [OF up]
  have nn: "\<forall>cat \<in> set cats. criteria_loop rs (criteria cat) (Fin 0) \<noteq> NaN"
  proof
    fix cat assume "cat \<in> set cats"
    then have "\<forall>c \<in> set (criteria cat).
        finite_weight (rc_weight c) \<and> rating_of rs (rc_id c) \<noteq> Inherited"
      using fin free by (simp add: finite_criteria_def inherited_free_def list_all_iff cats_def)
    then show "criteria_loop rs (criteria cat) (Fin 0) \<noteq> NaN"
      by (rule criteria_loop_not_NaN) simp
  qed
  from total_err_clamped [OF up order_refl nn] obtain t where
    t: "categories_loop rs cats (Fin 0) = Fin t" "0 \<le> t" "\<bar>t - F\<bar> \<le> 2 * (1 / 2 ^ 21)"
    unfolding F_def by blast
  have "F \<le> sum_list (map (\<lambda>cat. fin_val (cat_weight cat)) cats)"
    unfolding F_def
  proof (rule sum_list_mono)
    fix cat assume c: "cat \<in> set cats"
    then have "0 \<le> fin_val (cat_weight cat)" using w(1) by simp
    moreover have "clamped_subtotal rs cat \<le> 1"
      using nn c clamp01_range by (simp add: clamped_subtotal_def)
    ultimately have "clamped_subtotal rs cat * fin_val (cat_weight cat) \<le> 1 * fin_val (cat_weight cat)"
      by (intro mult_right_mono)
    then show "clamped_subtotal rs cat * fin_val (cat_weight cat) \<le> fin_val (cat_weight cat)"
      by simp
  qed
  then have F: "F \<le> 1 + 1 / 1000000" using w(3) by simp
  have tF: "t \<le> F + 1 / 1000000"
    using abs_le_D [OF t(3), of "1 / 1000000"] by simp
  have t1: "t \<le> 1 + 2 / 1000000" using tF F by linarith
  then have t54: "t \<le> 5 / 4" by simp
  from score_of_total [OF t(1) [unfolded cats_def] t(2) t54] obtain x where
    x: "0 \<le> x" "\<bar>x - 100 * t\<bar> \<le> 1 / 2 ^ 47"
       "overallScore cfg rs = rnd (of_int \<lfloor>x * 10 + 1 / 2\<rfloor> / 10)"
    by blast
  have xt: "x \<le> 100 * t + 1 / 1000000"
    using abs_le_D [OF x(2), of "1 / 1000000"] by simp
  have "x * 10 + 1 / 2 < of_int 1001" using xt t1 by simp
  then have "\<lfloor>x * 10 + 1 / 2\<rfloor> < 1001" by (simp only: floor_less_iff)
  then have n1: "\<lfloor>x * 10 + 1 / 2\<rfloor> \<le> 1000" by simp
  have "of_int 0 \<le> x * 10 + 1 / 2" using x(1) by simp
  then have n0: "0 \<le> \<lfloor>x * 10 + 1 / 2\<rfloor>" by (simp only: le_floor_iff)
  from rnd_tenths_le_100 [OF n0 n1] show ?thesis
    using x(3) by simp
qed

lemma score_order_independent:
  assumes "nominal (categories cfg)" and "nominal (categories cfg')"
    and "reordered (categories cfg) (categories cfg')"
    and "clear_of_ties (exact_total rs (categories cfg))"
  shows "overallScore cfg rs = overallScore cfg' rs"
proof (cases "inherited_free rs (categories cfg)")
  case True
  then have free': "inherited_free rs (categories cfg')"
    using inherited_free_reordered [OF assms(3)] by simp
  have eq: "exact_total rs (categories cfg) = exact_total rs (categories cfg')"
    using assms(3) by (rule exact_total_reordered)
  then have "clear_of_ties (exact_total rs (categories cfg'))"
    using assms(4) by simp
  from score_exact [OF assms(1) True assms(4)] score_exact [OF assms(2) free' this] show ?thesis
    by (simp add: eq)
next
  case False
  then have "\<not> inherited_free rs (categories cfg')"
    using inherited_free_reordered [OF assms(3)] by simp
  then show ?thesis
    using False by (simp add: overallScore_inherited)
qed

subsection \<open>All criteria Acceptable\<close>

lemma sum_list_scale:
  fixes f :: "'a \<Rightarrow> rat"
  shows "sum_list (map (\<lambda>x. k * f x) xs) = k * sum_list (map f xs)"
  by (induction xs) (simp_all add: algebra_simps)

lemma acceptable_subtotal:
  assumes "all_acceptable_near_one rs cat"
  shows "\<exists>S. exact_subtotal rs cat = 5404319552844595 / 9007199254740992 * S
             \<and> 1 - 1 / 1000000 \<le> S \<and> S \<le> 1 + 1 / 1000000"
proof -
  define S where "S = sum_list (map (\<lambda>c. fin_val (rc_weight c)) (criteria cat))"
  have ok: "array_weights (map rc_weight (criteria cat))"
    and lo: "1 - 1 / 1000000 \<le> S"
    and acc: "\<forall>c \<in> set (criteria cat). rating_of rs (rc_id c) = Label Acceptable"
    using assms by (simp_all add: all_acceptable_near_one_def S_def list_all_iff)
  have hi: "S \<le> 1 + 1 / 1000000"
    using weights_uptoD(3) [OF array_weights_upto [OF ok]] by (simp add: S_def)
  have "map (exact_term rs) (criteria cat)
      = map (\<lambda>c. 5404319552844595 / 9007199254740992 * fin_val (rc_weight c)) (criteria cat)"
    using acc by (simp add: exact_term_def literal_doubles fin_val_def)
  then have "exact_subtotal rs cat = 5404319552844595 / 9007199254740992 * S"
    unfolding exact_subtotal_def S_def by (simp only: sum_list_scale)
  then show ?thesis using lo hi by blast
qed

lemma example_exact_total:
  assumes w: "map cat_weight cats = [rnd (45 / 100), rnd (35 / 100), rnd (2 / 10)]"
    and acc: "list_all (all_acceptable_near_one rs) cats"
  shows "5999 / 10000 \<le> exact_total rs cats" and "exact_total rs cats \<le> 6001 / 10000"
proof -
  obtain c1 c2 c3 where cats: "cats = [c1, c2, c3]"
    using w by (auto simp: map_eq_Cons_conv)
  have cw: "cat_weight c1 = Fin (8106479329266893 / 18014398509481984)"
    "cat_weight c2 = Fin (3152519739159347 / 9007199254740992)"
    "cat_weight c3 = Fin (3602879701896397 / 18014398509481984)"
    using w unfolding cats by (simp_all add: literal_doubles)
  have a: "all_acceptable_near_one rs c1" "all_acceptable_near_one rs c2"
    "all_acceptable_near_one rs c3"
    using acc unfolding cats by simp_all
  define d :: rat where "d = 5404319552844595 / 9007199254740992"
  define w1 :: rat where "w1 = 8106479329266893 / 18014398509481984"
  define w2 :: rat where "w2 = 3152519739159347 / 9007199254740992"
  define w3 :: rat where "w3 = 3602879701896397 / 18014398509481984"
  define p1 where "p1 = d * w1"
  define p2 where "p2 = d * w2"
  define p3 where "p3 = d * w3"
  from acceptable_subtotal [OF a(1), folded d_def] obtain S1 where
    S1: "exact_subtotal rs c1 = d * S1" "1 - 1 / 1000000 \<le> S1" "S1 \<le> 1 + 1 / 1000000"
    by blast
  from acceptable_subtotal [OF a(2), folded d_def] obtain S2 where
    S2: "exact_subtotal rs c2 = d * S2" "1 - 1 / 1000000 \<le> S2" "S2 \<le> 1 + 1 / 1000000"
    by blast
  from acceptable_subtotal [OF a(3), folded d_def] obtain S3 where
    S3: "exact_subtotal rs c3 = d * S3" "1 - 1 / 1000000 \<le> S3" "S3 \<le> 1 + 1 / 1000000"
    by blast
  have d: "0 \<le> d" "d * (1 + 1 / 1000000) \<le> 1"
    by (simp_all add: d_def)
  have clamp: "max 0 (min 1 (d * S)) = d * S"
    if "1 - 1 / 1000000 \<le> S" "S \<le> 1 + 1 / 1000000" for S :: rat
  proof -
    have "d * S \<le> d * (1 + 1 / 1000000)"
      using that(2) d(1) by (rule mult_left_mono)
    then have "d * S \<le> 1" using d(2) by linarith
    moreover have "0 \<le> d * S"
      using that(1) d(1) by simp
    ultimately show ?thesis by (simp add: max_def min_def)
  qed
  have E: "exact_total rs cats = p1 * S1 + p2 * S2 + p3 * S3"
    unfolding exact_total_def cats p1_def p2_def p3_def
    by (simp add: S1(1) S2(1) S3(1) clamp [OF S1(2,3)] clamp [OF S2(2,3)] clamp [OF S3(2,3)]
        cw [folded w1_def w2_def w3_def] fin_val_def)
  have p: "0 \<le> p1" "0 \<le> p2" "0 \<le> p3"
    by (simp_all add: p1_def p2_def p3_def d_def w1_def w2_def w3_def)
  have plo: "5999 / 10000 \<le> (p1 + p2 + p3) * (1 - 1 / 1000000)"
    and phi: "(p1 + p2 + p3) * (1 + 1 / 1000000) \<le> 6001 / 10000"
    by (simp_all add: p1_def p2_def p3_def d_def w1_def w2_def w3_def)
  have l: "p1 * (1 - 1 / 1000000) \<le> p1 * S1" "p2 * (1 - 1 / 1000000) \<le> p2 * S2"
    "p3 * (1 - 1 / 1000000) \<le> p3 * S3"
    using S1(2) S2(2) S3(2) p by (simp_all only: mult_left_mono)
  have h: "p1 * S1 \<le> p1 * (1 + 1 / 1000000)" "p2 * S2 \<le> p2 * (1 + 1 / 1000000)"
    "p3 * S3 \<le> p3 * (1 + 1 / 1000000)"
    using S1(3) S2(3) S3(3) p by (simp_all only: mult_left_mono)
  have "(p1 + p2 + p3) * (1 - 1 / 1000000) \<le> p1 * S1 + p2 * S2 + p3 * S3"
    using l by (simp add: algebra_simps)
  then show "5999 / 10000 \<le> exact_total rs cats"
    unfolding E using plo by linarith
  have "p1 * S1 + p2 * S2 + p3 * S3 \<le> (p1 + p2 + p3) * (1 + 1 / 1000000)"
    using h by (simp add: algebra_simps)
  then show "exact_total rs cats \<le> 6001 / 10000"
    unfolding E using phi by linarith
qed

lemma example_score:
  assumes w: "map cat_weight (categories cfg) = [rnd (45 / 100), rnd (35 / 100), rnd (2 / 10)]"
    and acc: "list_all (all_acceptable_near_one rs) (categories cfg)"
  shows "overallScore cfg rs = Fin 60"
proof -
  define E where "E = exact_total rs (categories cfg)"
  note ex = example_exact_total [OF assms, folded E_def]
  have "list_all nonneg_fin (map cat_weight (categories cfg))"
    and "sum_list (map fin_val (map cat_weight (categories cfg))) \<le> 1 + 1 / 10 ^ 6"
    and "(of_nat (length (map cat_weight (categories cfg))) :: rat) * (1 / 2 ^ 53) \<le> 1 / 2 ^ 33"
    unfolding w by (simp_all add: literal_doubles nonneg_fin_def fin_val_def)
  then have ok: "weights_upto (1 / 2 ^ 33) (map cat_weight (categories cfg))"
    unfolding weights_upto_def by blast
  have oks: "\<forall>cat \<in> set (categories cfg). weights_upto (1 / 2 ^ 21) (map rc_weight (criteria cat))"
    using acc unfolding list_all_iff all_acceptable_near_one_def
    by (blast intro: array_weights_upto)
  have free: "inherited_free rs (categories cfg)"
    using acc by (auto simp: inherited_free_def list_all_iff all_acceptable_near_one_def)
  have b: "(1 / 2 ^ 33 :: rat) \<le> 1 / 2 ^ 21" "(1 / 2 ^ 21 :: rat) \<le> 1 / 2 ^ 21"
    "(0 :: rat) \<le> 1 / 2 ^ 21"
    by simp_all
  from total_err_upto [OF ok b(1) oks b(2) b(3) free] obtain t where
    t: "categories_loop rs (categories cfg) (Fin 0) = Fin t" "0 \<le> t"
       "\<bar>t - E\<bar> \<le> 2 * (1 / 2 ^ 33) + 2 * (1 / 2 ^ 21) * (1 + 1 / 10 ^ 6)"
    unfolding E_def by blast
  have tE: "t \<le> E + 1 / 100000" "E - 1 / 100000 \<le> t"
    using abs_le_D [OF t(3), of "1 / 100000"] by simp_all
  have t54: "t \<le> 5 / 4" using tE(1) ex(2) by simp
  from score_of_total [OF t(1,2) t54] obtain x where
    x: "\<bar>x - 100 * t\<bar> \<le> 1 / 2 ^ 47"
       "overallScore cfg rs = rnd (of_int \<lfloor>x * 10 + 1 / 2\<rfloor> / 10)"
    by blast
  have xt: "x \<le> 100 * t + 1 / 1000" "100 * t - 1 / 1000 \<le> x"
    using abs_le_D [OF x(1), of "1 / 1000"] by simp_all
  have lo: "of_int 600 \<le> x * 10 + 1 / 2" and hi: "x * 10 + 1 / 2 < of_int 600 + 1"
    using xt tE ex by simp_all
  have fl: "\<lfloor>x * 10 + 1 / 2\<rfloor> = 600"
    using lo hi by (rule floor_unique)
  show ?thesis
    using x(2) by (simp add: fl rnd_60)
qed

section \<open>Scores of concrete rulepacks\<close>

lemma cat_weights:
  "cat_weight TECH = Fin (8106479329266893 / 18014398509481984)"
  "cat_weight DEF_NEED = Fin (3152519739159347 / 9007199254740992)"
  "cat_weight COMM = Fin (3602879701896397 / 18014398509481984)"
  by (simp_all add: TECH_def DEF_NEED_def COMM_def literal_doubles)

lemma tech_one_marginal:
  "criteria_loop one_marginal (criteria TECH) (Fin 0) = Fin (4773815605012725 / 9007199254740992)"
  by (simp add: TECH_def one_marginal_def rating_of_def Object_prototype_keys_def literal_doubles) (simp add: rnd_eval)

lemma def_need_unrated:
  assumes "rs ''mission_impact'' = None" and "rs ''breadth'' = None"
    and "rs ''specificity'' = None" and "rs ''docs'' = None"
  shows "criteria_loop rs (criteria DEF_NEED) (Fin 0) = Fin (5404319552844595 / 9007199254740992)"
  using assms
  by (simp add: DEF_NEED_def rating_of_def Object_prototype_keys_def literal_doubles) (simp add: rnd_eval)

lemma comm_unrated:
  assumes "rs ''market'' = None" and "rs ''biz'' = None"
    and "rs ''interest'' = None" and "rs ''docs_comm'' = None"
  shows "criteria_loop rs (criteria COMM) (Fin 0) = Fin (5404319552844595 / 9007199254740992)"
  using assms
  by (simp add: COMM_def rating_of_def Object_prototype_keys_def literal_doubles) (simp add: rnd_eval)

lemma def_need_one_marginal:
  "criteria_loop one_marginal (criteria DEF_NEED) (Fin 0) = Fin (5404319552844595 / 9007199254740992)"
  by (rule def_need_unrated) (simp_all add: one_marginal_def)

lemma comm_one_marginal:
  "criteria_loop one_marginal (criteria COMM) (Fin 0) = Fin (5404319552844595 / 9007199254740992)"
  by (rule comm_unrated) (simp_all add: one_marginal_def)

lemma def_need_one_good:
  "criteria_loop one_good (criteria DEF_NEED) (Fin 0) = Fin (5404319552844595 / 9007199254740992)"
  by (rule def_need_unrated) (simp_all add: one_good_def)

lemma comm_one_good:
  "criteria_loop one_good (criteria COMM) (Fin 0) = Fin (5404319552844595 / 9007199254740992)"
  by (rule comm_unrated) (simp_all add: one_good_def)

lemma tech_one_good:
  "criteria_loop one_good (criteria TECH) (Fin 0) = Fin (377176468792279 / 562949953421312)"
  by (simp add: TECH_def one_good_def rating_of_def Object_prototype_keys_def literal_doubles) (simp add: rnd_eval)

lemma tech_reversed_one_good:
  "criteria_loop one_good (rev (criteria TECH)) (Fin 0) = Fin (6034823500676465 / 9007199254740992)"
  by (simp add: TECH_def one_good_def rating_of_def Object_prototype_keys_def literal_doubles) (simp add: rnd_eval)

lemmas clamp_eval = clamp01_def num_min_def num_max_def

lemma total_default_order:
  "categories_loop one_marginal [TECH, DEF_NEED, COMM] (Fin 0) = Fin (2560296388160127 / 4503599627370496)"
  by (simp add: tech_one_marginal def_need_one_marginal comm_one_marginal cat_weights clamp_eval)
    (simp add: rnd_eval)

lemma total_swapped_order:
  "categories_loop one_marginal [TECH, COMM, DEF_NEED] (Fin 0) = Fin (5120592776320253 / 9007199254740992)"
  by (simp add: tech_one_marginal def_need_one_marginal comm_one_marginal cat_weights clamp_eval)
    (simp add: rnd_eval)

lemma score_default_order:
  "overallScore DEFAULT_CONFIG one_marginal = Fin (8007963087418163 / 140737488355328)"
  by (simp add: overallScore_def DEFAULT_CONFIG_def total_default_order del: categories_loop.simps)
    (simp add: toFixed1_def rnd_eval)

lemma score_swapped_order:
  "overallScore swapped_config one_marginal = Fin (3996944669291315 / 70368744177664)"
  by (simp add: overallScore_def swapped_config_def total_swapped_order del: categories_loop.simps)
    (simp add: toFixed1_def rnd_eval)

lemma total_default_order_good:
  "categories_loop one_good [TECH, DEF_NEED, COMM] (Fin 0) = Fin (711005791171117 / 1125899906842624)"
  by (simp add: tech_one_good def_need_one_good comm_one_good cat_weights clamp_eval)
    (simp add: rnd_eval)

lemma total_reversed_good:
  "categories_loop one_good [TECH\<lparr>criteria := rev (criteria TECH)\<rparr>, DEF_NEED, COMM] (Fin 0)
     = Fin (5688046329368937 / 9007199254740992)"
  by (simp add: tech_reversed_one_good def_need_one_good comm_one_good cat_weights clamp_eval)
    (simp add: rnd_eval)

lemma score_default_good:
  "overallScore DEFAULT_CONFIG one_good = Fin (8880535515221197 / 140737488355328)"
  by (simp add: overallScore_def DEFAULT_CONFIG_def total_default_order_good
      del: categories_loop.simps)
    (simp add: toFixed1_def rnd_eval)

lemma score_reversed_good:
  "overallScore reversed_config one_good = Fin (4447304632028365 / 70368744177664)"
  by (simp add: overallScore_def reversed_config_def total_reversed_good
      del: categories_loop.simps)
    (simp add: toFixed1_def rnd_eval)

lemma reordered_reversed: "reordered (categories DEFAULT_CONFIG) (categories reversed_config)"
  by (simp add: reordered_def DEFAULT_CONFIG_def reversed_config_def cat_sig_def TECH_def)

lemma reordered_swapped: "reordered (categories DEFAULT_CONFIG) (categories swapped_config)"
  by (simp add: reordered_def DEFAULT_CONFIG_def swapped_config_def)

lemma tenths:
  "rnd (569 / 10) = Fin (8007963087418163 / 140737488355328)"
  "rnd (284 / 5) = Fin (3996944669291315 / 70368744177664)"
  "rnd (631 / 10) = Fin (8880535515221197 / 140737488355328)"
  "rnd (316 / 5) = Fin (4447304632028365 / 70368744177664)"
  by (simp_all add: rnd_eval)

lemma score_heavy: "overallScore heavy_config only_excellent = Fin 200"
  by (simp add: overallScore_def heavy_config_def only_excellent_def rating_of_def Object_prototype_keys_def clamp_eval)
    (simp add: toFixed1_def rnd_eval)

lemma score_negative: "overallScore negative_config only_excellent = Fin (- 100)"
  by (simp add: overallScore_def negative_config_def only_excellent_def rating_of_def Object_prototype_keys_def clamp_eval)
    (simp add: toFixed1_def rnd_eval)

lemma cancelling_subtotal: "criteria_loop no_ratings cancelling_criteria (Fin 0) = Fin 1"
  by (simp add: cancelling_criteria_def no_ratings_def rating_of_def Object_prototype_keys_def literal_doubles)
    (simp add: rnd_eval)

lemma cancelling_total:
  "categories_loop no_ratings (categories cancelling_config) (Fin 0) = Fin 1"
  by (simp add: cancelling_config_def cancelling_subtotal cat_weights clamp_eval
      del: criteria_loop.simps)
    (simp add: rnd_eval)

lemma score_cancelling: "overallScore cancelling_config no_ratings = Fin 100"
  by (simp add: overallScore_def cancelling_total del: categories_loop.simps)
    (simp add: toFixed1_def rnd_eval)

lemma constructor_inherited:
  "no_ratings ''constructor'' = None"
  "rating_of no_ratings ''constructor'' = Inherited"
  by (simp_all add: no_ratings_def rating_of_def Object_prototype_keys_def)

lemma score_constructor: "overallScore constructor_config no_ratings = NaN"
  by (simp add: overallScore_def constructor_config_def constructor_inherited clamp_eval
      toFixed1_def)

lemma constructor_weights:
  "map cat_weight (categories constructor_config) = [rnd (45 / 100), rnd (35 / 100), rnd (2 / 10)]"
  "map criteria (categories constructor_config)
     = [[\<lparr>rc_id = ''constructor'', rc_weight = Fin 1\<rparr>], criteria DEF_NEED, criteria COMM]"
  by (simp_all add: constructor_config_def TECH_def DEF_NEED_def COMM_def)

lemma spec_subtotal_constructor:
  "spec_subtotal no_ratings (TECH\<lparr>criteria := [\<lparr>rc_id = ''constructor'', rc_weight = Fin 1\<rparr>]\<rparr>)
     = Fin (5404319552844595 / 9007199254740992)"
  "spec_subtotal no_ratings DEF_NEED = Fin (5404319552844595 / 9007199254740992)"
  "spec_subtotal no_ratings COMM = Fin (5404319552844595 / 9007199254740992)"
  by (simp_all add: spec_subtotal_def TECH_def DEF_NEED_def COMM_def spec_rating_def
      spec_rating_score_def no_ratings_def literal_doubles)
    (simp_all add: rnd_eval)

lemma spec_total_constructor:
  "foldl num_add (Fin 0)
     (map (\<lambda>cat. num_mul (spec_clamp (spec_subtotal no_ratings cat)) (cat_weight cat))
        (categories constructor_config)) = Fin (5404319552844595 / 9007199254740992)"
  by (simp add: constructor_config_def spec_subtotal_constructor spec_clamp_def cat_weights)
    (simp add: rnd_eval)

lemma spec_score_constructor: "spec_score constructor_config no_ratings = Fin 60"
  by (simp add: spec_score_def spec_total_constructor)
    (simp add: spec_round1_def round_def rnd_eval)

lemma score_infinite: "overallScore infinite_config no_ratings = NaN"
  by (simp add: overallScore_def infinite_config_def no_ratings_def rating_of_def
      Object_prototype_keys_def literal_doubles clamp_eval toFixed1_def)

lemma cancelling_float_sum:
  "num_add (num_add (Fin 0) (Fin (2 ^ 53))) (Fin (1 - 2 ^ 53)) = Fin 1"
  by (simp add: rnd_eval)

lemma cancelling_sum: "sum_list (map (fin_val \<circ> rc_weight) cancelling_criteria) = 1"
  by (simp add: cancelling_criteria_def fin_val_def)

lemma cancelling_weights:
  "map cat_weight (categories cancelling_config) = [rnd (45 / 100), rnd (35 / 100), rnd (2 / 10)]"
  by (simp add: cancelling_config_def TECH_def DEF_NEED_def COMM_def)

lemma default_category_weights:
  "map cat_weight (categories DEFAULT_CONFIG) = [rnd (45 / 100), rnd (35 / 100), rnd (2 / 10)]"
  by (simp add: DEFAULT_CONFIG_def TECH_def DEF_NEED_def COMM_def)

lemma default_all_acceptable:
  "list_all (all_acceptable_near_one no_ratings) (categories DEFAULT_CONFIG)"
  by (simp add: DEFAULT_CONFIG_def TECH_def DEF_NEED_def COMM_def all_acceptable_near_one_def
      array_weights_def nonneg_fin_def fin_val_def literal_doubles no_ratings_def rating_of_def
      Object_prototype_keys_def)

lemma default_inherited_free: "inherited_free no_ratings (categories DEFAULT_CONFIG)"
  by (simp add: DEFAULT_CONFIG_def TECH_def DEF_NEED_def COMM_def inherited_free_def
      no_ratings_def rating_of_def Object_prototype_keys_def)

lemma lopsided_hyps:
  "array_weights (map cat_weight (categories lopsided_config))"
  "finite_criteria (categories lopsided_config)"
  "inherited_free one_marginal (categories lopsided_config)"
  by (simp_all add: lopsided_config_def TECH_def DEF_NEED_def COMM_def array_weights_def
      finite_criteria_def finite_weight_def nonneg_fin_def fin_val_def literal_doubles
      inherited_free_def one_marginal_def rating_of_def Object_prototype_keys_def)

lemma default_nominal: "nominal (categories DEFAULT_CONFIG)"
  by (simp add: DEFAULT_CONFIG_def TECH_def DEF_NEED_def COMM_def nominal_def
      weights_ok_def nonneg_fin_def fin_val_def literal_doubles)

lemma shuffled_nominal: "nominal (categories shuffled_config)"
  by (simp add: shuffled_config_def TECH_def DEF_NEED_def COMM_def nominal_def
      weights_ok_def nonneg_fin_def fin_val_def literal_doubles)

lemma shuffled_reordered: "reordered (categories DEFAULT_CONFIG) (categories shuffled_config)"
  by (simp add: reordered_def DEFAULT_CONFIG_def shuffled_config_def cat_sig_def TECH_def)

lemma default_clear: "clear_of_ties (exact_total no_ratings (categories DEFAULT_CONFIG))"
proof -
  note ex = example_exact_total [OF default_category_weights default_all_acceptable]
  define E where "E = exact_total no_ratings (categories DEFAULT_CONFIG)"
  have lo: "of_int 600 \<le> 1000 * E + 1 / 2" and hi: "1000 * E + 1 / 2 < of_int 600 + 1"
    using ex by (simp_all add: E_def)
  have fl: "\<lfloor>1000 * E + 1 / 2\<rfloor> = 600"
    using lo hi by (rule floor_unique)
  show ?thesis
    unfolding clear_of_ties_def Let_def E_def [symmetric] fl using ex by (simp add: E_def)
qed

section \<open>Properties of the mandatory gate\<close>

lemma criterion_ok_unrecognized:
  assumes "mc_id m \<notin> {''costCap'', ''popCap'', ''pages'', ''cmSigned'', ''rcf''}"
  shows "criterion_ok cfg pm m"
  using assms by (simp add: criterion_ok_def)

lemma criterion_ok_same_id:
  assumes "mc_id m = mc_id m'"
  shows "criterion_ok cfg pm m = criterion_ok cfg pm m'"
  using assms by (simp add: criterion_ok_def)

lemma mandatory_loop_notin:
  assumes "k \<notin> mc_id ` set ms"
  shows "mandatory_loop cfg pm ms mp k = mp k"
  using assms by (induction ms arbitrary: mp) auto

lemma mandatory_loop_proto:
  "mandatory_loop cfg pm ms mp ''__proto__'' = mp ''__proto__''"
  by (induction ms arbitrary: mp) simp_all

lemma mandatory_loop_in:
  assumes "m \<in> set ms" and "mc_id m \<noteq> ''__proto__''"
  shows "mandatory_loop cfg pm ms mp (mc_id m) = Some (criterion_ok cfg pm m)"
  using assms
proof (induction ms arbitrary: mp m)
  case Nil
  then show ?case by simp
next
  case (Cons a ms)
  show ?case
  proof (cases "m \<in> set ms")
    case True
    then show ?thesis using Cons.IH Cons.prems(2) by simp
  next
    case False
    with Cons.prems have eq: "m = a" by simp
    show ?thesis
    proof (cases "mc_id m \<in> mc_id ` set ms")
      case True
      then obtain m' where m': "m' \<in> set ms" "mc_id m' = mc_id m" by auto
      then have "mc_id m' \<noteq> ''__proto__''" using Cons.prems(2) by simp
      from Cons.IH [OF m'(1) this]
      have "mandatory_loop cfg pm ms (mp(mc_id a \<mapsto> criterion_ok cfg pm a)) (mc_id m')
            = Some (criterion_ok cfg pm m')" .
      then show ?thesis
        using m'(2) eq Cons.prems(2) criterion_ok_same_id [of m' m cfg pm] by simp
    next
      case False
      then show ?thesis using eq Cons.prems(2) by (simp add: mandatory_loop_notin)
    qed
  qed
qed

lemma mandatoryResults_in:
  assumes "m \<in> set (mandatory cfg)" and "mc_id m \<noteq> ''__proto__''"
  shows "mandatoryResults cfg pm (mc_id m) = Some (criterion_ok cfg pm m)"
  using assms by (simp add: mandatoryResults_def mandatory_loop_in)

lemma mandatoryResults_proto: "mandatoryResults cfg pm ''__proto__'' = None"
  by (simp add: mandatoryResults_def mandatory_loop_proto)

text \<open>
  C1. The disqualified flag is true if and only if some criterion of the mandatory list is
  required and is mapped to false (not satisfied) by the per-criterion boolean map; and
  a listed criterion is mapped to false exactly when its own check fails, also when ids
  repeat, so that is the case if and only if some required criterion of the list fails its
  check.
\<close>

theorem disqualified_iff_required_unsatisfied:
  "(disqualified cfg pm \<longleftrightarrow>
      (\<exists>m \<in> set (mandatory cfg). required m \<and> mandatoryResults cfg pm (mc_id m) = Some False))
   \<and> (disqualified cfg pm \<longleftrightarrow>
      (\<exists>m \<in> set (mandatory cfg). required m \<and> \<not> criterion_ok cfg pm m))"
proof -
  have "disqualified cfg pm \<longleftrightarrow>
      (\<exists>m \<in> set (mandatory cfg). required m \<and> mandatoryResults cfg pm (mc_id m) = Some False)"
    by (simp add: disqualified_def list_ex_iff)
  moreover have "mandatoryResults cfg pm (mc_id m) = Some False \<longleftrightarrow> \<not> criterion_ok cfg pm m"
    if "m \<in> set (mandatory cfg)" for m
  proof (cases "mc_id m = ''__proto__''")
    case True
    then have "criterion_ok cfg pm m"
      by (intro criterion_ok_unrecognized) simp
    then show ?thesis
      using True by (simp add: mandatoryResults_proto)
  next
    case False
    then show ?thesis
      using mandatoryResults_in [OF that, of pm] by simp
  qed
  ultimately show ?thesis by blast
qed

theorem disqualified_iff_required_unsatisfied_witness:
  "(\<exists>m \<in> set (mandatory DEFAULT_CONFIG).
      required m \<and> mandatoryResults DEFAULT_CONFIG initial_proposalMeta (mc_id m) = Some False)
   \<and> disqualified DEFAULT_CONFIG initial_proposalMeta
   \<and> \<not> disqualified DEFAULT_CONFIG compliant_proposalMeta"
proof -
  have ex: "\<exists>m \<in> set (mandatory DEFAULT_CONFIG).
      required m \<and> mandatoryResults DEFAULT_CONFIG initial_proposalMeta (mc_id m) = Some False"
    by (simp add: DEFAULT_CONFIG_def DEFAULT_MANDATORY_def mandatoryResults_def
        criterion_ok_def initial_proposalMeta_def)
  have all: "\<not> (\<exists>m \<in> set (mandatory DEFAULT_CONFIG).
      required m \<and> \<not> criterion_ok DEFAULT_CONFIG compliant_proposalMeta m)"
    by (simp add: DEFAULT_CONFIG_def DEFAULT_MANDATORY_def criterion_ok_def
        compliant_proposalMeta_def example_proposalMeta_def initial_proposalMeta_def
        techVolumeMaxPages_of_def)
  from ex all
    disqualified_iff_required_unsatisfied [of DEFAULT_CONFIG initial_proposalMeta]
    disqualified_iff_required_unsatisfied [of DEFAULT_CONFIG compliant_proposalMeta]
  show ?thesis by blast
qed




text \<open>
  C8. With a cost cap of 1,250,000 and a page cap of 15, required criteria \<open>costCap\<close>,
  \<open>pages\<close> and \<open>cmSigned\<close> in the mandatory list, and a proposal with cost total 1,180,000,
  14 pages and no signed memorandum: \<open>costCap\<close> and \<open>pages\<close> are satisfied, \<open>cmSigned\<close>
  is not, and the proposal is disqualified.
\<close>

theorem worked_example_gate:
  assumes "costCapUSD cfg = Some (Fin 1250000)"
    and "pagePolicy cfg = Some pp" and "techVolumeMaxPages pp = Some (Fin 15)"
    and "m1 \<in> set (mandatory cfg)" and "mc_id m1 = ''costCap''" and "required m1"
    and "m2 \<in> set (mandatory cfg)" and "mc_id m2 = ''pages''" and "required m2"
    and "m3 \<in> set (mandatory cfg)" and "mc_id m3 = ''cmSigned''" and "required m3"
    and "costTotal pm = Fin 1180000" and "tvPages pm = Fin 14" and "\<not> cmSigned pm"
  shows "mandatoryResults cfg pm ''costCap'' = Some True
       \<and> mandatoryResults cfg pm ''pages'' = Some True
       \<and> mandatoryResults cfg pm ''cmSigned'' = Some False
       \<and> disqualified cfg pm"
proof -
  have ids: "mc_id m1 \<noteq> ''__proto__''" "mc_id m2 \<noteq> ''__proto__''" "mc_id m3 \<noteq> ''__proto__''"
    using assms(5,8,11) by simp_all
  have r1: "mandatoryResults cfg pm ''costCap'' = Some True"
    using mandatoryResults_in [OF assms(4) ids(1), of pm] assms
    by (simp add: criterion_ok_def)
  have r2: "mandatoryResults cfg pm ''pages'' = Some True"
    using mandatoryResults_in [OF assms(7) ids(2), of pm] assms
    by (simp add: criterion_ok_def techVolumeMaxPages_of_def)
  have r3: "mandatoryResults cfg pm ''cmSigned'' = Some False"
    using mandatoryResults_in [OF assms(10) ids(3), of pm] assms
    by (simp add: criterion_ok_def)
  have "disqualified cfg pm"
    unfolding disqualified_def list_ex_iff
    using assms(10,11,12) r3 by auto
  with r1 r2 r3 show ?thesis by simp
qed

theorem worked_example_gate_witness:
  "mandatoryResults DEFAULT_CONFIG example_proposalMeta ''costCap'' = Some True
   \<and> mandatoryResults DEFAULT_CONFIG example_proposalMeta ''pages'' = Some True
   \<and> mandatoryResults DEFAULT_CONFIG example_proposalMeta ''cmSigned'' = Some False
   \<and> disqualified DEFAULT_CONFIG example_proposalMeta"
  by (rule worked_example_gate
      [where pp = "\<lparr>techVolumeMaxPages = Some (Fin 15),
                     excludes = Some [''Coversheet'', ''Glossary'', ''Table of Contents'']\<rparr>"
         and ?m1.0 = "DEFAULT_MANDATORY ! 0" and ?m2.0 = "DEFAULT_MANDATORY ! 3"
         and ?m3.0 = "DEFAULT_MANDATORY ! 2"])
    (simp_all add: DEFAULT_CONFIG_def DEFAULT_MANDATORY_def example_proposalMeta_def
      initial_proposalMeta_def)

section \<open>Milestone quality flag\<close>

text \<open>
  C9. The quality flag of a milestone is "Strong" if and only if both \<open>rdCentric\<close> and
  \<open>measurable\<close> are true, and it is "Needs Work" in each of the other three cases.
\<close>

theorem milestone_badge_strong_iff:
  "(milestone_badge m = ''Strong'' \<longleftrightarrow> rdCentric m \<and> measurable m)
   \<and> (milestone_badge m = ''Needs Work'' \<longleftrightarrow> \<not> (rdCentric m \<and> measurable m))"
  by (simp add: milestone_badge_def)

theorem milestone_badge_strong_iff_witness:
  "milestone_badge milestone_m1 = ''Strong''
   \<and> milestone_badge milestone_m3 = ''Needs Work''
   \<and> milestone_badge (milestone_m1\<lparr>rdCentric := False\<rparr>) = ''Needs Work''
   \<and> milestone_badge (milestone_m3\<lparr>rdCentric := False\<rparr>) = ''Needs Work''"
  using milestone_badge_strong_iff [of milestone_m1] milestone_badge_strong_iff [of milestone_m3]
    milestone_badge_strong_iff [of "milestone_m1\<lparr>rdCentric := False\<rparr>"]
    milestone_badge_strong_iff [of "milestone_m3\<lparr>rdCentric := False\<rparr>"]
  by (simp add: milestone_m1_def milestone_m3_def)

section \<open>Loading a configuration\<close>

text \<open>
  C6. When the text submitted for loading is not valid JSON, the state after the load is
  the state before it with one alert more: the active configuration and every other field
  are untouched. When the text parses, the state after the load is the state before it
  with the configuration replaced by the parsed value as a whole.
\<close>

theorem handleLoadConfig_all_or_nothing:
  "(parse (configText s) = None \<longrightarrow>
      handleLoadConfig parse s = s\<lparr>alerts := alerts s @ [''Invalid solicitation JSON'']\<rparr>
      \<and> config (handleLoadConfig parse s) = config s)
   \<and> (\<forall>c. parse (configText s) = Some c \<longrightarrow>
      handleLoadConfig parse s = s\<lparr>config := c\<rparr>
      \<and> alerts (handleLoadConfig parse s) = alerts s)"
  by (simp add: handleLoadConfig_def)

theorem handleLoadConfig_all_or_nothing_witness:
  "one_document_parser (configText (state_with_text ''{ mandatory: '')) = None
   \<and> config (handleLoadConfig one_document_parser (state_with_text ''{ mandatory: '')) = DEFAULT_CONFIG
   \<and> alerts (handleLoadConfig one_document_parser (state_with_text ''{ mandatory: ''))
       = [''Invalid solicitation JSON'']
   \<and> one_document_parser (configText (state_with_text ''<the rulepack with the raised cap>''))
       = Some raised_cap_config
   \<and> config (handleLoadConfig one_document_parser (state_with_text ''<the rulepack with the raised cap>''))
       = raised_cap_config"
proof -
  have a: "one_document_parser (configText (state_with_text ''{ mandatory: '')) = None"
    by (simp add: one_document_parser_def state_with_text_def)
  have b: "one_document_parser (configText (state_with_text ''<the rulepack with the raised cap>''))
       = Some raised_cap_config"
    by (simp add: one_document_parser_def state_with_text_def)
  from a b
    handleLoadConfig_all_or_nothing [of one_document_parser "state_with_text ''{ mandatory: ''"]
    handleLoadConfig_all_or_nothing
      [of one_document_parser "state_with_text ''<the rulepack with the raised cap>''"]
  show ?thesis by (simp add: state_with_text_def)
qed

section \<open>Scoring endpoint\<close>

text \<open>Whatever happens inside the \<open>try\<close> block, the handler responds, with 200 or 500.\<close>

lemma error_response_shape:
  "status (error_response e) = 500
   \<and> (\<exists>msg. body (error_response e) = JObj [(lit ''error'', JStr msg), (lit ''items'', JArr [])])"
  by (simp add: error_response_def)

lemma try_block_cases:
  "(\<exists>e. fst (try_block p t) = error_response e)
   \<or> (\<exists>sect res ch rest data.
        OpenAI_new p = None \<and> section_text p t = Inr sect
        \<and> chat_create p (make_request sect) = Inr res \<and> choices res = ch # rest
        \<and> JSON_parse p (content_or_default (message_content ch)) = Inr data
        \<and> fst (try_block p t) = \<lparr>status = 200, body = data\<rparr>)"
  by (auto simp: try_block_def split: option.splits sum.splits list.splits)


text \<open>
  C7. The claim is that every error thrown while a request is handled is caught and
  answered with status 500 and a body \<open>{error, items: []}\<close>. The handler parses the
  request body and destructures the result before it enters its \<open>try\<close> block: when the
  body is not JSON, or is the JSON text \<open>null\<close>, the error leaves the handler uncaught and
  no such response is produced.
\<close>

theorem POST_body_error_not_caught:
  "(req_body \<noteq> [] \<and> JSON_parse p req_body = Inl e \<longrightarrow> POST p req_body = (Uncaught e, []))
   \<and> (req_body \<noteq> [] \<and> JSON_parse p req_body = Inr JNull \<longrightarrow>
        POST p req_body = (Uncaught (TypeError p), []))"
  by (simp add: POST_def)

theorem POST_body_error_not_caught_witness:
  "lit ''{'' \<noteq> []
   \<and> JSON_parse demo_platform (lit ''{'') = Inl (Thrown (Some (lit ''Unexpected token'')))
   \<and> POST demo_platform (lit ''{'') = (Uncaught (Thrown (Some (lit ''Unexpected token''))), [])
   \<and> lit ''null'' \<noteq> []
   \<and> JSON_parse demo_platform (lit ''null'') = Inr JNull
   \<and> POST demo_platform (lit ''null'') = (Uncaught (TypeError demo_platform), [])"
proof -
  have a: "lit ''{'' \<noteq> []" "lit ''null'' \<noteq> []"
    by (simp_all add: lit_def)
  have b: "JSON_parse demo_platform (lit ''{'') = Inl (Thrown (Some (lit ''Unexpected token'')))"
    by (simp add: demo_platform_def demo_parse_def long_body_def array_body_def
        null_text_body_def lit_def)
  have c: "JSON_parse demo_platform (lit ''null'') = Inr JNull"
    by (simp add: demo_platform_def demo_parse_def lit_def)
  from a b c
    POST_body_error_not_caught
      [of "lit ''{''" demo_platform "Thrown (Some (lit ''Unexpected token''))"]
    POST_body_error_not_caught [of "lit ''null''" demo_platform]
  show ?thesis by simp
qed




section \<open>Weighted score aggregator\<close>

text \<open>
  C2, as the program has it. For every configuration and rating set in which no criterion
  reads an inherited member (each criterion is rated, or its id names no member of
  \<open>Object.prototype\<close>), the overall score is the formula of the specification: the
  ratings map to 1.0, 0.8, 0.6, 0.4 and 0.2, a criterion absent from the rating set counts
  as Acceptable, each category subtotal is clamped to the interval from 0 to 1 and
  multiplied by the category weight, and the sum of the products, times 100, is rounded
  to one decimal, all in double arithmetic with each sum taken from 0 in list order. With
  category weights 0.45, 0.35 and 0.2, and in each category an array of criteria with
  non-negative weights that sum to 1 within one part in a million, all of them rated
  Acceptable or counted as Acceptable, the overall score is 60.
\<close>

theorem overallScore_formula_and_example:
  "(inherited_free rs (categories cfg) \<longrightarrow> overallScore cfg rs = spec_score cfg rs)
   \<and> (map cat_weight (categories cfg) = [rnd (45 / 100), rnd (35 / 100), rnd (2 / 10)]
        \<and> list_all (all_acceptable_near_one rs) (categories cfg)
      \<longrightarrow> overallScore cfg rs = Fin 60)"
proof (intro conjI impI)
  assume "inherited_free rs (categories cfg)"
  then show "overallScore cfg rs = spec_score cfg rs"
    by (rule overallScore_spec)
next
  assume h: "map cat_weight (categories cfg) = [rnd (45 / 100), rnd (35 / 100), rnd (2 / 10)]
    \<and> list_all (all_acceptable_near_one rs) (categories cfg)"
  show "overallScore cfg rs = Fin 60"
    using h [THEN conjunct1] h [THEN conjunct2] by (rule example_score)
qed

theorem overallScore_formula_and_example_witness:
  "inherited_free no_ratings (categories DEFAULT_CONFIG)
   \<and> map cat_weight (categories DEFAULT_CONFIG) = [rnd (45 / 100), rnd (35 / 100), rnd (2 / 10)]
   \<and> list_all (all_acceptable_near_one no_ratings) (categories DEFAULT_CONFIG)
   \<and> overallScore DEFAULT_CONFIG no_ratings = spec_score DEFAULT_CONFIG no_ratings
   \<and> overallScore DEFAULT_CONFIG no_ratings = Fin 60"
proof -
  note f = default_inherited_free
  note w = default_category_weights
  note a = default_all_acceptable
  from overallScore_formula_and_example [of no_ratings DEFAULT_CONFIG]
  have "overallScore DEFAULT_CONFIG no_ratings = spec_score DEFAULT_CONFIG no_ratings"
    and "overallScore DEFAULT_CONFIG no_ratings = Fin 60"
    using f w a by blast+
  then show ?thesis using f w a by blast
qed

text \<open>
  The claim as stated fails in two ways. First, when weights of both signs are allowed:
  the criterion weights \<open>2^53\<close> and \<open>1 - 2^53\<close> sum to 1, exactly and in double
  arithmetic, but with both criteria counted as Acceptable \<open>0.6 * 2^53\<close> is the integer
  5404319552844595 and \<open>0.6 * (1 - 2^53)\<close> rounds to -5404319552844594, so every
  subtotal is 1 instead of 0.6 and the score is 100. Second, a criterion that is absent
  from the rating set is not counted as Acceptable when its id is \<open>constructor\<close>: with
  the default category weights, criterion weights that sum to 1 in each category and
  nothing rated, the formula gives 60 and the program gives NaN.
\<close>

theorem overallScore_example_counterexample:
  "map cat_weight (categories cancelling_config) = [rnd (45 / 100), rnd (35 / 100), rnd (2 / 10)]
   \<and> map criteria (categories cancelling_config) = [cancelling_criteria, cancelling_criteria, cancelling_criteria]
   \<and> map rc_weight cancelling_criteria = [Fin (2 ^ 53), Fin (1 - 2 ^ 53)]
   \<and> sum_list (map (fin_val \<circ> rc_weight) cancelling_criteria) = 1
   \<and> num_add (num_add (Fin 0) (Fin (2 ^ 53))) (Fin (1 - 2 ^ 53)) = Fin 1
   \<and> overallScore cancelling_config no_ratings = Fin 100
   \<and> overallScore cancelling_config no_ratings \<noteq> Fin 60
   \<and> map cat_weight (categories constructor_config) = [rnd (45 / 100), rnd (35 / 100), rnd (2 / 10)]
   \<and> map criteria (categories constructor_config)
        = [[\<lparr>rc_id = ''constructor'', rc_weight = Fin 1\<rparr>], criteria DEF_NEED, criteria COMM]
   \<and> no_ratings ''constructor'' = None
   \<and> spec_score constructor_config no_ratings = Fin 60
   \<and> overallScore constructor_config no_ratings = NaN"
  using cancelling_weights cancelling_sum score_cancelling cancelling_float_sum
    constructor_weights constructor_inherited(1) spec_score_constructor score_constructor
  by (simp add: cancelling_config_def cancelling_criteria_def)

text \<open>
  C3, as the program has it. When the category weights are non-negative and sum to at
  most 1 (within one part in a million), every criterion weight is a finite number, and
  no criterion reads an inherited member, the overall score is a number between 0 and
  100, whatever the criterion weights sum to and whatever the ratings. The categories
  form an array, which has fewer than \<open>2^32\<close> elements.
\<close>

theorem score_within_0_100:
  assumes "array_weights (map cat_weight (categories cfg))"
    and "finite_criteria (categories cfg)"
    and "inherited_free rs (categories cfg)"
  shows "\<exists>s. overallScore cfg rs = Fin s \<and> 0 \<le> s \<and> s \<le> 100"
  using assms by (rule score_bounded)

theorem score_within_0_100_witness:
  "array_weights (map cat_weight (categories lopsided_config))
   \<and> finite_criteria (categories lopsided_config)
   \<and> inherited_free one_marginal (categories lopsided_config)
   \<and> (\<exists>s. overallScore lopsided_config one_marginal = Fin s \<and> 0 \<le> s \<and> s \<le> 100)"
  using score_within_0_100 [OF lopsided_hyps] lopsided_hyps
  by simp

text \<open>
  The claim as stated, for every configuration, fails on category weights that do not sum
  to 1: a single category of weight 2 rated Excellent scores 200, and one of weight -1
  scores -100. It fails on criterion weights that are not finite: the weights \<open>1e999\<close>
  and \<open>-1e999\<close> in one category make its subtotal, and the score, NaN. And it fails on an
  unrated criterion named \<open>constructor\<close>, which makes the score NaN as well.
\<close>

theorem score_within_0_100_counterexample:
  "overallScore heavy_config only_excellent = Fin 200
   \<and> overallScore negative_config only_excellent = Fin (- 100)
   \<and> overallScore infinite_config no_ratings = NaN
   \<and> overallScore constructor_config no_ratings = NaN"
  using score_heavy score_negative score_infinite score_constructor by simp

text \<open>
  C4, as the program has it. For configurations with nominal weights, permuting the
  categories, and the criteria within categories, leaves the overall score unchanged
  provided the exact value of the weighted sum is clear of the ties of the rounding to one
  decimal. (The exact value itself does not depend on the order.)
\<close>

theorem score_order_independent_clear_of_ties:
  assumes "nominal (categories cfg)" and "nominal (categories cfg')"
    and "reordered (categories cfg) (categories cfg')"
    and "clear_of_ties (exact_total rs (categories cfg))"
  shows "overallScore cfg rs = overallScore cfg' rs"
  using assms by (rule score_order_independent)

theorem score_order_independent_clear_of_ties_witness:
  "nominal (categories DEFAULT_CONFIG) \<and> nominal (categories shuffled_config)
   \<and> reordered (categories DEFAULT_CONFIG) (categories shuffled_config)
   \<and> clear_of_ties (exact_total no_ratings (categories DEFAULT_CONFIG))
   \<and> overallScore DEFAULT_CONFIG no_ratings = overallScore shuffled_config no_ratings"
  using score_order_independent_clear_of_ties
    [OF default_nominal shuffled_nominal shuffled_reordered default_clear]
    default_nominal shuffled_nominal shuffled_reordered default_clear
  by simp

text \<open>
  The claim as stated fails on the default rulepack. With \<open>tech_approach\<close> rated Marginal
  and nothing else rated, the score is 56.9, and 56.8 once the last two categories are
  exchanged. With \<open>tech_approach\<close> rated Good it is 63.1, and 63.2 once the criteria of
  the first category are listed in reverse order. Double addition is not associative, and
  the totals fall on either side of a tie of the rounding.
\<close>

theorem score_order_counterexample:
  "reordered (categories DEFAULT_CONFIG) (categories swapped_config)
   \<and> overallScore DEFAULT_CONFIG one_marginal = rnd (569 / 10)
   \<and> overallScore swapped_config one_marginal = rnd (568 / 10)
   \<and> overallScore DEFAULT_CONFIG one_marginal \<noteq> overallScore swapped_config one_marginal
   \<and> reordered (categories DEFAULT_CONFIG) (categories reversed_config)
   \<and> overallScore DEFAULT_CONFIG one_good = rnd (631 / 10)
   \<and> overallScore reversed_config one_good = rnd (632 / 10)
   \<and> overallScore DEFAULT_CONFIG one_good \<noteq> overallScore reversed_config one_good"
  using reordered_swapped reordered_reversed
  by (simp add: score_default_order score_swapped_order score_default_good score_reversed_good
      tenths)

end
